theory Spec2Isabelle
  imports Main "HOL-Library.Char_ord" "HOL-Library.List_Lexorder" "HOL-Library.Product_Lexorder"
begin

section \<open>Data model\<close>

text \<open>
  The three route files that write the Prisma model \<open>Timetable\<close> are embedded here:
  \<^item> \<open>timetable.routes\<close> (GET /, GET /classes/:classId, POST /classes/:classId, GET /:id,
    PUT /:id, DELETE /:id);
  \<^item> \<open>teacher-schedule.routes\<close> (GET /:id/schedules, POST /:id/schedules, PUT /:id,
    DELETE /:id, POST /conflicts/check);
  \<^item> \<open>teacher-assignment.routes\<close> (POST /:id/teachers, PUT /:id/teachers/:teacherId,
    DELETE /:id/teachers/:teacherId).
  The subject links of \<open>class.routes\<close> and the cascade of a teacher's deletion also touch
  the table; they are not part of the scheduling operations and are not embedded.

  Times are the strings the code stores (\<open>HH:MM\<close>); they are compared the way the code
  compares them, as strings, in lexicographic order of their characters. The handlers
  compare in JavaScript and in the \<open>where\<close> clauses of the database; on strings of the
  shape \<open>HH:MM\<close>, the only ones the schemas let into the table, the two orders agree.
  A day of the week is a value of the enum: a string that is no day is refused by the
  schema or by Prisma before any row is read.
  The database is a record of tables, each a list of rows in storage order; every handler
  takes the store and returns the store it leaves behind together with its outcome, so a
  write that happened before a failure stays visible.
\<close>

datatype DayOfWeek = MONDAY | TUESDAY | WEDNESDAY | THURSDAY | FRIDAY | SATURDAY | SUNDAY

record timetable =
  tt_id :: string
  classId :: string
  subjectId :: string
  teacherId :: string
  dayOfWeek :: DayOfWeek
  startTime :: string
  endTime :: string
  room :: "string option"
  isPrimary :: bool
  isActive :: bool

record class_row =
  c_id :: string
  c_instituteId :: string
  c_name :: string

record subject_row =
  s_id :: string
  s_instituteId :: string
  s_name :: string

record user_row =
  u_id :: string
  u_instituteId :: string
  u_role :: string
  u_isActive :: bool

record teacher_subject =
  ts_teacherId :: string
  ts_subjectId :: string

record store =
  timetable_tbl :: "timetable list"
  class_tbl :: "class_row list"
  subject_tbl :: "subject_row list"
  user_tbl :: "user_row list"
  teacherSubject_tbl :: "teacher_subject list"

text \<open>
  The Prisma schema is not part of the sources. What the handlers leave to it is taken as a
  parameter: the value of a column the handler does not set, and whether the database
  (foreign keys, unique indexes) admits a row that a handler writes.
\<close>

record schema =
  accepts :: "store \<Rightarrow> timetable \<Rightarrow> bool"
  default_isPrimary :: bool
  default_isActive :: bool

text \<open>\<open>req.user\<close> as the \<open>authenticate\<close> middleware leaves it.\<close>

record auth_user =
  user_instituteId :: string
  user_role :: string

text \<open>
  \<open>AppError(statusCode, message)\<close>; \<open>ZodError\<close> is a rejected \<open>schema.parse\<close>;
  \<open>PrismaError\<close> is a write the database refuses; \<open>TypeError\<close> is the exception of a
  handler that reads a property of a relation that came back as \<open>null\<close>.
\<close>

datatype error = AppError nat string | ZodError | PrismaError | TypeError

section \<open>Middleware and validation schemas\<close>

definition authorize :: "string list \<Rightarrow> auth_user \<Rightarrow> error option" where
  "authorize roles user =
     (if user_role user \<in> set roles then None
      else Some (AppError 403 ''Forbidden: Insufficient permissions''))"

definition digit :: "char \<Rightarrow> bool" where
  "digit c = (c \<in> set ''0123456789'')"

text \<open>The regular expression \<open>/^([01]\d|2[0-3]):([0-5]\d)$/\<close>.\<close>

fun time_regex :: "string \<Rightarrow> bool" where
  "time_regex [h1, h2, c, m1, m2] =
     (((h1 \<in> set ''01'' \<and> digit h2) \<or> (h1 = CHR ''2'' \<and> h2 \<in> set ''0123''))
      \<and> c = CHR '':'' \<and> m1 \<in> set ''012345'' \<and> digit m2)"
| "time_regex _ = False"

definition hexdigit :: "char \<Rightarrow> bool" where
  "hexdigit c = (c \<in> set ''0123456789abcdefABCDEF'')"

text \<open>
  \<open>z.string().uuid()\<close> belongs to the zod library: the shape it accepts is five groups of
  8, 4, 4, 4 and 12 hexadecimal digits separated by hyphens. The identifiers used in the
  concrete states below are version 4 identifiers in lower case.
\<close>

fun hex_groups :: "nat list \<Rightarrow> string \<Rightarrow> bool" where
  "hex_groups [] s = False"
| "hex_groups [n] s = (length s = n \<and> list_all hexdigit s)"
| "hex_groups (n # ns) s =
     (list_all hexdigit (take n s) \<and> length (take n s) = n
      \<and> take 1 (drop n s) = ''-'' \<and> hex_groups ns (drop (Suc n) s))"

definition uuid :: "string \<Rightarrow> bool" where
  "uuid s = hex_groups [8, 4, 4, 4, 12] s"

record timetable_input =
  in_classId :: string
  in_subjectId :: string
  in_teacherId :: string
  in_dayOfWeek :: DayOfWeek
  in_startTime :: string
  in_endTime :: string
  in_room :: "string option"
  in_isPrimary :: "bool option"

text \<open>\<open>createTimetableSchema.parse\<close>: \<open>isPrimary\<close> is optional and defaults to true.\<close>

definition createTimetableSchema :: "timetable_input \<Rightarrow> error + timetable_input" where
  "createTimetableSchema body =
     (if uuid (in_classId body) \<and> uuid (in_subjectId body) \<and> uuid (in_teacherId body)
         \<and> time_regex (in_startTime body) \<and> time_regex (in_endTime body)
      then Inr (body\<lparr>in_isPrimary :=
                  Some (case in_isPrimary body of None \<Rightarrow> True | Some b \<Rightarrow> b)\<rparr>)
      else Inl ZodError)"

record timetable_patch =
  p_classId :: "string option"
  p_subjectId :: "string option"
  p_teacherId :: "string option"
  p_dayOfWeek :: "DayOfWeek option"
  p_startTime :: "string option"
  p_endTime :: "string option"
  p_room :: "string option"
  p_isPrimary :: "bool option"

definition opt_ok :: "('a \<Rightarrow> bool) \<Rightarrow> 'a option \<Rightarrow> bool" where
  "opt_ok P x = (case x of None \<Rightarrow> True | Some v \<Rightarrow> P v)"

text \<open>
  \<open>updateTimetableSchema = createTimetableSchema.partial()\<close>: every field may be absent,
  and an absent field stays absent (the default of \<open>isPrimary\<close> is not applied to it).
\<close>

definition updateTimetableSchema :: "timetable_patch \<Rightarrow> error + timetable_patch" where
  "updateTimetableSchema body =
     (if opt_ok uuid (p_classId body) \<and> opt_ok uuid (p_subjectId body)
         \<and> opt_ok uuid (p_teacherId body)
         \<and> opt_ok time_regex (p_startTime body) \<and> opt_ok time_regex (p_endTime body)
      then Inr body else Inl ZodError)"

record schedule_input =
  sc_classId :: string
  sc_dayOfWeek :: DayOfWeek
  sc_startTime :: string
  sc_endTime :: string
  sc_room :: "string option"

definition createScheduleSchema :: "schedule_input \<Rightarrow> error + schedule_input" where
  "createScheduleSchema body =
     (if uuid (sc_classId body)
         \<and> time_regex (sc_startTime body) \<and> time_regex (sc_endTime body)
      then Inr body else Inl ZodError)"

record schedule_patch =
  sp_classId :: "string option"
  sp_dayOfWeek :: "DayOfWeek option"
  sp_startTime :: "string option"
  sp_endTime :: "string option"
  sp_room :: "string option"

definition updateScheduleSchema :: "schedule_patch \<Rightarrow> error + schedule_patch" where
  "updateScheduleSchema body =
     (if opt_ok uuid (sp_classId body)
         \<and> opt_ok time_regex (sp_startTime body) \<and> opt_ok time_regex (sp_endTime body)
      then Inr body else Inl ZodError)"

text \<open>
  \<open>assignTeacherSchema\<close>: \<open>isPrimary\<close> defaults to false. The optional \<open>assignedAt\<close> is
  parsed and never read by the handler; it is left out.
\<close>

record assign_input =
  as_teacherId :: string
  as_isPrimary :: "bool option"

definition assignTeacherSchema :: "assign_input \<Rightarrow> error + assign_input" where
  "assignTeacherSchema body =
     (if uuid (as_teacherId body)
      then Inr (body\<lparr>as_isPrimary :=
                  Some (case as_isPrimary body of None \<Rightarrow> False | Some b \<Rightarrow> b)\<rparr>)
      else Inl ZodError)"

section \<open>Prisma operations on the timetable table\<close>

text \<open>
  \<open>findFirst\<close> and \<open>findUnique\<close> are \<^const>\<open>find\<close>, \<open>findMany\<close> is \<^const>\<open>filter\<close>.
  \<open>create\<close> appends the row; the primary key and the constraints of the schema can
  refuse it.
\<close>

definition prisma_create :: "schema \<Rightarrow> store \<Rightarrow> timetable \<Rightarrow> error + store" where
  "prisma_create sch s row =
     (if tt_id row \<in> set (map tt_id (timetable_tbl s)) then Inl PrismaError
      else if accepts sch s row
      then Inr (s\<lparr>timetable_tbl := timetable_tbl s @ [row]\<rparr>)
      else Inl PrismaError)"

text \<open>\<open>update({ where: { id }, data })\<close>: \<open>f\<close> applies \<open>data\<close> to the row.\<close>

definition prisma_update ::
  "schema \<Rightarrow> store \<Rightarrow> string \<Rightarrow> (timetable \<Rightarrow> timetable) \<Rightarrow> error + store" where
  "prisma_update sch s i f =
     (case find (\<lambda>e. tt_id e = i) (timetable_tbl s) of
        None \<Rightarrow> Inl PrismaError
      | Some old \<Rightarrow>
          if accepts sch (s\<lparr>timetable_tbl := filter (\<lambda>e. tt_id e \<noteq> i) (timetable_tbl s)\<rparr>) (f old)
          then Inr (s\<lparr>timetable_tbl := map (\<lambda>e. if tt_id e = i then f e else e) (timetable_tbl s)\<rparr>)
          else Inl PrismaError)"

definition prisma_updateMany :: "store \<Rightarrow> (timetable \<Rightarrow> bool) \<Rightarrow> (timetable \<Rightarrow> timetable) \<Rightarrow> store" where
  "prisma_updateMany s P f =
     s\<lparr>timetable_tbl := map (\<lambda>e. if P e then f e else e) (timetable_tbl s)\<rparr>"

definition prisma_delete :: "store \<Rightarrow> string \<Rightarrow> error + store" where
  "prisma_delete s i =
     (case find (\<lambda>e. tt_id e = i) (timetable_tbl s) of
        None \<Rightarrow> Inl PrismaError
      | Some old \<Rightarrow> Inr (s\<lparr>timetable_tbl := filter (\<lambda>e. tt_id e \<noteq> i) (timetable_tbl s)\<rparr>))"

text \<open>
  Modelled from the spec: the enum \<open>DayOfWeek\<close> is declared in the Prisma schema, which is
  not in the sources; \<open>orderBy: [{ dayOfWeek: 'asc' }, { startTime: 'asc' }]\<close> sorts by
  the order of its declaration, taken here as the order in which the specification and the
  \<open>z.enum\<close> of the routes list the days.
\<close>

fun day_index :: "DayOfWeek \<Rightarrow> nat" where
  "day_index MONDAY = 0"
| "day_index TUESDAY = 1"
| "day_index WEDNESDAY = 2"
| "day_index THURSDAY = 3"
| "day_index FRIDAY = 4"
| "day_index SATURDAY = 5"
| "day_index SUNDAY = 6"

definition orderBy_day_start :: "timetable list \<Rightarrow> timetable list" where
  "orderBy_day_start rows = sort_key (\<lambda>e. (day_index (dayOfWeek e), startTime e)) rows"

fun day_name :: "DayOfWeek \<Rightarrow> string" where
  "day_name MONDAY = ''MONDAY''"
| "day_name TUESDAY = ''TUESDAY''"
| "day_name WEDNESDAY = ''WEDNESDAY''"
| "day_name THURSDAY = ''THURSDAY''"
| "day_name FRIDAY = ''FRIDAY''"
| "day_name SATURDAY = ''SATURDAY''"
| "day_name SUNDAY = ''SUNDAY''"

section \<open>The interval predicates\<close>

text \<open>
  The \<open>OR\<close> of three \<open>AND\<close> clauses in the \<open>where\<close> of POST /:id/schedules, PUT /:id and
  POST /conflicts/check, for an existing row \<open>[es, ee]\<close> and a candidate \<open>[cs, ce]\<close>.
\<close>

definition three_clause :: "string \<Rightarrow> string \<Rightarrow> string \<Rightarrow> string \<Rightarrow> bool" where
  "three_clause es ee cs ce =
     ((es \<le> cs \<and> ee > cs) \<or> (es < ce \<and> ee \<ge> ce) \<or> (es \<ge> cs \<and> ee \<le> ce))"

text \<open>The overlap of two half-open ranges, in the words of the specification.\<close>

definition spec_overlaps :: "string \<times> string \<Rightarrow> string \<times> string \<Rightarrow> bool" where
  "spec_overlaps a b = (fst a < snd b \<and> fst b < snd a)"

section \<open>timetable.routes\<close>

text \<open>
  In a query string a parameter is used when it is present and not empty
  (\<open>if (classId) where.classId = classId\<close>).
\<close>

definition where_eq :: "string option \<Rightarrow> string \<Rightarrow> bool" where
  "where_eq q v = (case q of None \<Rightarrow> True | Some x \<Rightarrow> (if x = [] then True else v = x))"

definition where_day :: "DayOfWeek option \<Rightarrow> DayOfWeek \<Rightarrow> bool" where
  "where_day q d = (case q of None \<Rightarrow> True | Some x \<Rightarrow> d = x)"

text \<open>GET /: \<open>user\<close> is read from the request and not used in the \<open>where\<close>.\<close>

definition timetable_list ::
  "store \<Rightarrow> auth_user \<Rightarrow> string option \<Rightarrow> string option \<Rightarrow> DayOfWeek option
   \<Rightarrow> error + timetable list" where
  "timetable_list s user classId_q teacherId_q dayOfWeek_q =
     Inr (orderBy_day_start
            (filter (\<lambda>e. where_eq classId_q (classId e) \<and> where_eq teacherId_q (teacherId e)
                          \<and> where_day dayOfWeek_q (dayOfWeek e))
               (timetable_tbl s)))"

text \<open>GET /classes/:classId.\<close>

definition timetable_class_list :: "store \<Rightarrow> auth_user \<Rightarrow> string \<Rightarrow> error + timetable list" where
  "timetable_class_list s user classId_p =
     (case find (\<lambda>c. c_id c = classId_p) (class_tbl s) of
        None \<Rightarrow> Inl (AppError 404 ''Class not found'')
      | Some classItem \<Rightarrow>
          Inr (orderBy_day_start (filter (\<lambda>e. classId e = classId_p) (timetable_tbl s))))"

text \<open>GET /:id.\<close>

definition timetable_get :: "store \<Rightarrow> auth_user \<Rightarrow> string \<Rightarrow> error + timetable" where
  "timetable_get s user i =
     (case find (\<lambda>e. tt_id e = i) (timetable_tbl s) of
        None \<Rightarrow> Inl (AppError 404 ''Timetable entry not found'')
      | Some timetable \<Rightarrow> Inr timetable)"

text \<open>
  POST /classes/:classId. The class of the path is the one checked against the institute;
  the row is written with the \<open>classId\<close> of the body. \<open>nid\<close> is the identifier the
  database gives the new row.
\<close>

definition timetable_create ::
  "schema \<Rightarrow> string \<Rightarrow> store \<Rightarrow> auth_user \<Rightarrow> string \<Rightarrow> timetable_input
   \<Rightarrow> store \<times> (error + timetable)" where
  "timetable_create sch nid s user classId_p body =
     (case authorize [''SUPER_ADMIN'', ''ADMIN''] user of
        Some e \<Rightarrow> (s, Inl e)
      | None \<Rightarrow>
     (case createTimetableSchema body of
        Inl e \<Rightarrow> (s, Inl e)
      | Inr validated \<Rightarrow>
          if find (\<lambda>c. c_id c = classId_p \<and> c_instituteId c = user_instituteId user)
               (class_tbl s) = None
          then (s, Inl (AppError 404 ''Class not found''))
          else if find (\<lambda>x. s_id x = in_subjectId validated
                             \<and> s_instituteId x = user_instituteId user) (subject_tbl s) = None
          then (s, Inl (AppError 404 ''Subject not found''))
          else if find (\<lambda>u. u_id u = in_teacherId validated
                             \<and> u_instituteId u = user_instituteId user
                             \<and> u_role u = ''TEACHER'') (user_tbl s) = None
          then (s, Inl (AppError 404 ''Teacher not found''))
          else if find (\<lambda>q. ts_teacherId q = in_teacherId validated
                             \<and> ts_subjectId q = in_subjectId validated)
                    (teacherSubject_tbl s) = None
          then (s, Inl (AppError 400 ''Teacher is not qualified to teach this subject''))
          else if find (\<lambda>e. teacherId e = in_teacherId validated
                             \<and> dayOfWeek e = in_dayOfWeek validated
                             \<and> startTime e = in_startTime validated) (timetable_tbl s) \<noteq> None
          then (s, Inl (AppError 409 ''Teacher is already scheduled at this time''))
          else if find (\<lambda>e. classId e = in_classId validated
                             \<and> subjectId e = in_subjectId validated
                             \<and> teacherId e = in_teacherId validated
                             \<and> dayOfWeek e = in_dayOfWeek validated
                             \<and> startTime e = in_startTime validated) (timetable_tbl s) \<noteq> None
          then (s, Inl (AppError 409 ''This timetable entry already exists''))
          else
            (let row = \<lparr>tt_id = nid,
                        classId = in_classId validated,
                        subjectId = in_subjectId validated,
                        teacherId = in_teacherId validated,
                        dayOfWeek = in_dayOfWeek validated,
                        startTime = in_startTime validated,
                        endTime = in_endTime validated,
                        room = in_room validated,
                        isPrimary = (case in_isPrimary validated of None \<Rightarrow> True | Some b \<Rightarrow> b),
                        isActive = True\<rparr>
             in case prisma_create sch s row of
                  Inl e \<Rightarrow> (s, Inl e)
                | Inr s' \<Rightarrow> (s', Inr row))))"

text \<open>\<open>data: { ...validated }\<close>: the fields present in the body replace the row's.\<close>

definition present :: "'a option \<Rightarrow> bool" where
  "present x = (case x of None \<Rightarrow> False | Some v \<Rightarrow> True)"

definition or_else :: "'a option \<Rightarrow> 'a \<Rightarrow> 'a" where
  "or_else x d = (case x of None \<Rightarrow> d | Some v \<Rightarrow> v)"

definition apply_timetable_patch :: "timetable_patch \<Rightarrow> timetable \<Rightarrow> timetable" where
  "apply_timetable_patch v e =
     e\<lparr>classId := or_else (p_classId v) (classId e),
       subjectId := or_else (p_subjectId v) (subjectId e),
       teacherId := or_else (p_teacherId v) (teacherId e),
       dayOfWeek := or_else (p_dayOfWeek v) (dayOfWeek e),
       startTime := or_else (p_startTime v) (startTime e),
       endTime := or_else (p_endTime v) (endTime e),
       room := (case p_room v of None \<Rightarrow> room e | Some r \<Rightarrow> Some r),
       isPrimary := or_else (p_isPrimary v) (isPrimary e)\<rparr>"

text \<open>
  PUT /:id. A field that passed the schema is a non-empty string, so it is truthy exactly
  when it is present.
\<close>

definition timetable_update ::
  "schema \<Rightarrow> store \<Rightarrow> auth_user \<Rightarrow> string \<Rightarrow> timetable_patch \<Rightarrow> store \<times> (error + timetable)" where
  "timetable_update sch s user i body =
     (case authorize [''SUPER_ADMIN'', ''ADMIN''] user of
        Some e \<Rightarrow> (s, Inl e)
      | None \<Rightarrow>
     (case updateTimetableSchema body of
        Inl e \<Rightarrow> (s, Inl e)
      | Inr validated \<Rightarrow>
     (case find (\<lambda>e. tt_id e = i) (timetable_tbl s) of
        None \<Rightarrow> (s, Inl (AppError 404 ''Timetable entry not found''))
      | Some existing \<Rightarrow>
          if present (p_teacherId validated) \<and> present (p_subjectId validated)
             \<and> find (\<lambda>q. Some (ts_teacherId q) = p_teacherId validated
                          \<and> Some (ts_subjectId q) = p_subjectId validated)
                  (teacherSubject_tbl s) = None
          then (s, Inl (AppError 400 ''Teacher is not qualified to teach this subject''))
          else if (present (p_dayOfWeek validated) \<or> present (p_startTime validated))
             \<and> find (\<lambda>e. tt_id e \<noteq> i
                          \<and> teacherId e = or_else (p_teacherId validated) (teacherId existing)
                          \<and> dayOfWeek e = or_else (p_dayOfWeek validated) (dayOfWeek existing)
                          \<and> startTime e = or_else (p_startTime validated) (startTime existing))
                  (timetable_tbl s) \<noteq> None
          then (s, Inl (AppError 409 ''Teacher is already scheduled at this time''))
          else
            (case prisma_update sch s i (apply_timetable_patch validated) of
               Inl e \<Rightarrow> (s, Inl e)
             | Inr s' \<Rightarrow> (s', Inr (apply_timetable_patch validated existing))))))"

text \<open>DELETE /:id: \<open>prisma.timetable.delete\<close>.\<close>

definition timetable_delete :: "store \<Rightarrow> auth_user \<Rightarrow> string \<Rightarrow> store \<times> (error + unit)" where
  "timetable_delete s user i =
     (case authorize [''SUPER_ADMIN'', ''ADMIN''] user of
        Some e \<Rightarrow> (s, Inl e)
      | None \<Rightarrow>
     (case find (\<lambda>e. tt_id e = i) (timetable_tbl s) of
        None \<Rightarrow> (s, Inl (AppError 404 ''Timetable entry not found''))
      | Some existing \<Rightarrow>
          (case prisma_delete s i of
             Inl e \<Rightarrow> (s, Inl e)
           | Inr s' \<Rightarrow> (s', Inr ()))))"

section \<open>teacher-schedule.routes\<close>

text \<open>GET /:id/schedules.\<close>

definition schedule_list ::
  "store \<Rightarrow> auth_user \<Rightarrow> string \<Rightarrow> DayOfWeek option \<Rightarrow> error + timetable list" where
  "schedule_list s user i dayOfWeek_q =
     (case find (\<lambda>u. u_id u = i \<and> u_instituteId u = user_instituteId user
                      \<and> u_role u = ''TEACHER'') (user_tbl s) of
        None \<Rightarrow> Inl (AppError 404 ''Teacher not found'')
      | Some teacher \<Rightarrow>
          Inr (orderBy_day_start
                 (filter (\<lambda>e. teacherId e = i \<and> where_day dayOfWeek_q (dayOfWeek e))
                    (timetable_tbl s))))"

definition conflict_message :: "string \<Rightarrow> DayOfWeek \<Rightarrow> timetable \<Rightarrow> string" where
  "conflict_message name d conflict =
     ''Time conflict detected: Teacher already has a class '' @ [CHR 0x22]
     @ name @ [CHR 0x22] @ '' on '' @ day_name d
     @ '' from '' @ startTime conflict @ '' to '' @ endTime conflict"

text \<open>
  The error thrown for a conflicting row. The relation
  \<open>include: { class: { select: { name: true } } }\<close> is a lookup of the class row; when
  the row has no class, \<open>conflict.class.name\<close> throws instead of building the message.
\<close>

definition conflict_error :: "store \<Rightarrow> DayOfWeek \<Rightarrow> timetable \<Rightarrow> error" where
  "conflict_error s d conflict =
     (case find (\<lambda>c. c_id c = classId conflict) (class_tbl s) of
        None \<Rightarrow> TypeError
      | Some c \<Rightarrow> AppError 400 (conflict_message (c_name c) d conflict))"

text \<open>POST /:id/schedules. The row is written with the empty \<open>subjectId\<close>.\<close>

definition schedule_create ::
  "schema \<Rightarrow> string \<Rightarrow> store \<Rightarrow> auth_user \<Rightarrow> string \<Rightarrow> schedule_input
   \<Rightarrow> store \<times> (error + timetable)" where
  "schedule_create sch nid s user i body =
     (case authorize [''SUPER_ADMIN'', ''ADMIN''] user of
        Some e \<Rightarrow> (s, Inl e)
      | None \<Rightarrow>
     (case createScheduleSchema body of
        Inl e \<Rightarrow> (s, Inl e)
      | Inr data \<Rightarrow>
          if find (\<lambda>u. u_id u = i \<and> u_instituteId u = user_instituteId user
                        \<and> u_role u = ''TEACHER'') (user_tbl s) = None
          then (s, Inl (AppError 404 ''Teacher not found''))
          else if find (\<lambda>c. c_id c = sc_classId data
                             \<and> c_instituteId c = user_instituteId user) (class_tbl s) = None
          then (s, Inl (AppError 404 ''Class not found''))
          else if sc_startTime data \<ge> sc_endTime data
          then (s, Inl (AppError 400 ''End time must be after start time''))
          else
            (case find (\<lambda>e. teacherId e = i \<and> dayOfWeek e = sc_dayOfWeek data
                             \<and> three_clause (startTime e) (endTime e)
                                  (sc_startTime data) (sc_endTime data)) (timetable_tbl s) of
               Some conflict \<Rightarrow>
                 (s, Inl (conflict_error s (sc_dayOfWeek data) conflict))
             | None \<Rightarrow>
                 (let row = \<lparr>tt_id = nid,
                             classId = sc_classId data,
                             subjectId = [],
                             teacherId = i,
                             dayOfWeek = sc_dayOfWeek data,
                             startTime = sc_startTime data,
                             endTime = sc_endTime data,
                             room = sc_room data,
                             isPrimary = default_isPrimary sch,
                             isActive = default_isActive sch\<rparr>
                  in case prisma_create sch s row of
                       Inl e \<Rightarrow> (s, Inl e)
                     | Inr s' \<Rightarrow> (s', Inr row)))))"

definition apply_schedule_patch :: "schedule_patch \<Rightarrow> timetable \<Rightarrow> timetable" where
  "apply_schedule_patch v e =
     e\<lparr>classId := or_else (sp_classId v) (classId e),
       dayOfWeek := or_else (sp_dayOfWeek v) (dayOfWeek e),
       startTime := or_else (sp_startTime v) (startTime e),
       endTime := or_else (sp_endTime v) (endTime e),
       room := (case sp_room v of None \<Rightarrow> room e | Some r \<Rightarrow> Some r)\<rparr>"

text \<open>
  The relation filter \<open>teacher: { instituteId: user.instituteId }\<close> of PUT /:id and
  DELETE /:id.
\<close>

definition teacher_in_institute :: "store \<Rightarrow> string \<Rightarrow> timetable \<Rightarrow> bool" where
  "teacher_in_institute s inst e =
     (find (\<lambda>u. u_id u = teacherId e \<and> u_instituteId u = inst) (user_tbl s) \<noteq> None)"

text \<open>PUT /:id.\<close>

definition schedule_update ::
  "schema \<Rightarrow> store \<Rightarrow> auth_user \<Rightarrow> string \<Rightarrow> schedule_patch \<Rightarrow> store \<times> (error + timetable)" where
  "schedule_update sch s user i body =
     (case authorize [''SUPER_ADMIN'', ''ADMIN''] user of
        Some e \<Rightarrow> (s, Inl e)
      | None \<Rightarrow>
     (case updateScheduleSchema body of
        Inl e \<Rightarrow> (s, Inl e)
      | Inr data \<Rightarrow>
     (case find (\<lambda>e. tt_id e = i \<and> teacher_in_institute s (user_instituteId user) e)
             (timetable_tbl s) of
        None \<Rightarrow> (s, Inl (AppError 404 ''Schedule not found''))
      | Some existingSchedule \<Rightarrow>
          if present (sp_classId data)
             \<and> find (\<lambda>c. Some (c_id c) = sp_classId data
                          \<and> c_instituteId c = user_instituteId user) (class_tbl s) = None
          then (s, Inl (AppError 404 ''Class not found''))
          else if or_else (sp_startTime data) (startTime existingSchedule)
                    \<ge> or_else (sp_endTime data) (endTime existingSchedule)
          then (s, Inl (AppError 400 ''End time must be after start time''))
          else
            (case find (\<lambda>e. tt_id e \<noteq> i \<and> teacherId e = teacherId existingSchedule
                             \<and> dayOfWeek e = or_else (sp_dayOfWeek data) (dayOfWeek existingSchedule)
                             \<and> three_clause (startTime e) (endTime e)
                                  (or_else (sp_startTime data) (startTime existingSchedule))
                                  (or_else (sp_endTime data) (endTime existingSchedule)))
                    (timetable_tbl s) of
               Some conflict \<Rightarrow>
                 (s, Inl (conflict_error s
                            (or_else (sp_dayOfWeek data) (dayOfWeek existingSchedule)) conflict))
             | None \<Rightarrow>
                 (case prisma_update sch s i (apply_schedule_patch data) of
                    Inl e \<Rightarrow> (s, Inl e)
                  | Inr s' \<Rightarrow> (s', Inr (apply_schedule_patch data existingSchedule)))))))"

text \<open>DELETE /:id: \<open>prisma.timetable.delete\<close>.\<close>

definition schedule_delete :: "store \<Rightarrow> auth_user \<Rightarrow> string \<Rightarrow> store \<times> (error + unit)" where
  "schedule_delete s user i =
     (case authorize [''SUPER_ADMIN'', ''ADMIN''] user of
        Some e \<Rightarrow> (s, Inl e)
      | None \<Rightarrow>
     (case find (\<lambda>e. tt_id e = i \<and> teacher_in_institute s (user_instituteId user) e)
             (timetable_tbl s) of
        None \<Rightarrow> (s, Inl (AppError 404 ''Schedule not found''))
      | Some schedule \<Rightarrow>
          (case prisma_delete s i of
             Inl e \<Rightarrow> (s, Inl e)
           | Inr s' \<Rightarrow> (s', Inr ()))))"

text \<open>
  POST /conflicts/check reads \<open>req.body\<close> without a schema: a field is missing, or falsy,
  when it is absent or the empty string.
\<close>

record conflict_query =
  q_teacherId :: string
  q_dayOfWeek :: "DayOfWeek option"
  q_startTime :: string
  q_endTime :: string
  q_excludeScheduleId :: "string option"

record conflict_result =
  hasConflict :: bool
  conflicts :: "timetable list"

definition exclude_ok :: "string option \<Rightarrow> timetable \<Rightarrow> bool" where
  "exclude_ok x e = (case x of None \<Rightarrow> True | Some i \<Rightarrow> (if i = [] then True else tt_id e \<noteq> i))"

definition conflicts_check :: "store \<Rightarrow> auth_user \<Rightarrow> conflict_query \<Rightarrow> error + conflict_result" where
  "conflicts_check s user q =
     (case q_dayOfWeek q of
        None \<Rightarrow> Inl (AppError 400 ''teacherId, dayOfWeek, startTime, and endTime are required'')
      | Some d \<Rightarrow>
          if q_teacherId q = [] \<or> q_startTime q = [] \<or> q_endTime q = []
          then Inl (AppError 400 ''teacherId, dayOfWeek, startTime, and endTime are required'')
          else if find (\<lambda>u. u_id u = q_teacherId q \<and> u_instituteId u = user_instituteId user
                             \<and> u_role u = ''TEACHER'') (user_tbl s) = None
          then Inl (AppError 404 ''Teacher not found'')
          else
            (let found = filter (\<lambda>e. teacherId e = q_teacherId q \<and> dayOfWeek e = d
                                     \<and> three_clause (startTime e) (endTime e)
                                          (q_startTime q) (q_endTime q)
                                     \<and> exclude_ok (q_excludeScheduleId q) e) (timetable_tbl s)
             in Inr \<lparr>hasConflict = (length found > 0), conflicts = found\<rparr>))"

section \<open>teacher-assignment.routes\<close>

fun join :: "string \<Rightarrow> string list \<Rightarrow> string" where
  "join sep [] = []"
| "join sep [x] = x"
| "join sep (x # xs) = x @ sep @ join sep xs"

text \<open>
  The included relation \<open>subject\<close> of a row: the subject's name, or nothing when the row's
  \<open>subjectId\<close> names no subject.
\<close>

definition subject_name :: "store \<Rightarrow> string \<Rightarrow> string option" where
  "subject_name s sid = map_option s_name (find (\<lambda>x. s_id x = sid) (subject_tbl s))"

text \<open>\<open>xs.map(x => x.subject.name)\<close>: the names, or nothing when one of the reads throws.\<close>

fun names_of :: "string option list \<Rightarrow> string list option" where
  "names_of [] = Some []"
| "names_of (None # xs) = None"
| "names_of (Some n # xs) = map_option ((#) n) (names_of xs)"

definition cannot_teach_message :: "string list \<Rightarrow> string list \<Rightarrow> string" where
  "cannot_teach_message classSubjectNames teacherSubjectNames =
     ''Teacher cannot teach any subjects in this class (''
     @ join '', '' classSubjectNames
     @ ''). Teacher'' @ [CHR 0x27] @ ''s subjects: ''
     @ (let names = join '', '' teacherSubjectNames
        in if names = [] then ''None'' else names)"

text \<open>
  The error thrown when the teacher can teach no subject of the class: the names of the
  class's subjects are read first, then those of the teacher's.
\<close>

definition cannot_teach_error :: "store \<Rightarrow> timetable list \<Rightarrow> teacher_subject list \<Rightarrow> error" where
  "cannot_teach_error s classTimetables teacherSubjects =
     (case names_of (map (\<lambda>tt. subject_name s (subjectId tt)) classTimetables) of
        None \<Rightarrow> TypeError
      | Some classSubjectNames \<Rightarrow>
          (case names_of (map (\<lambda>ts. subject_name s (ts_subjectId ts)) teacherSubjects) of
             None \<Rightarrow> TypeError
           | Some teacherSubjectNames \<Rightarrow>
               AppError 400 (cannot_teach_message classSubjectNames teacherSubjectNames)))"

text \<open>
  POST /:id/teachers. The demotion of the other primaries (\<open>updateMany\<close>) and the
  \<open>create\<close> are two statements, one after the other. The row gets the subject of the
  class's first timetable row and the slot MONDAY 09:00 to 10:00.
\<close>

definition assign_teacher ::
  "schema \<Rightarrow> string \<Rightarrow> store \<Rightarrow> auth_user \<Rightarrow> string \<Rightarrow> assign_input
   \<Rightarrow> store \<times> (error + timetable)" where
  "assign_teacher sch nid s user i body =
     (case authorize [''SUPER_ADMIN'', ''ADMIN''] user of
        Some e \<Rightarrow> (s, Inl e)
      | None \<Rightarrow>
     (case assignTeacherSchema body of
        Inl e \<Rightarrow> (s, Inl e)
      | Inr data \<Rightarrow>
          if find (\<lambda>c. c_id c = i \<and> c_instituteId c = user_instituteId user) (class_tbl s) = None
          then (s, Inl (AppError 404 ''Class not found''))
          else if find (\<lambda>u. u_id u = as_teacherId data
                             \<and> u_instituteId u = user_instituteId user
                             \<and> u_role u = ''TEACHER'' \<and> u_isActive u) (user_tbl s) = None
          then (s, Inl (AppError 404 ''Teacher not found or inactive''))
          else
            (let classTimetables = filter (\<lambda>e. classId e = i) (timetable_tbl s);
                 teacherSubjects = filter (\<lambda>q. ts_teacherId q = as_teacherId data)
                                     (teacherSubject_tbl s);
                 classSubjectIds = map subjectId classTimetables;
                 isPrimary_d = (case as_isPrimary data of None \<Rightarrow> False | Some b \<Rightarrow> b)
             in if \<not> list_ex (\<lambda>q. ts_subjectId q \<in> set classSubjectIds) teacherSubjects
                then (s, Inl (cannot_teach_error s classTimetables teacherSubjects))
                else if find (\<lambda>e. classId e = i \<and> teacherId e = as_teacherId data)
                          (timetable_tbl s) \<noteq> None
                then (s, Inl (AppError 400 ''Teacher is already assigned to this class''))
                else
                  (let s1 = (if isPrimary_d
                             then prisma_updateMany s (\<lambda>e. classId e = i \<and> isPrimary e)
                                    (\<lambda>e. e\<lparr>isPrimary := False\<rparr>)
                             else s);
                       row = \<lparr>tt_id = nid,
                              classId = i,
                              subjectId = (case classTimetables of [] \<Rightarrow> [] | tt # _ \<Rightarrow> subjectId tt),
                              teacherId = as_teacherId data,
                              dayOfWeek = MONDAY,
                              startTime = ''09:00'',
                              endTime = ''10:00'',
                              room = None,
                              isPrimary = isPrimary_d,
                              isActive = default_isActive sch\<rparr>
                   in case prisma_create sch s1 row of
                        Inl e \<Rightarrow> (s1, Inl e)
                      | Inr s' \<Rightarrow> (s', Inr row)))))"

text \<open>PUT /:id/teachers/:teacherId; \<open>updateAssignmentSchema\<close> is the one boolean.\<close>

definition update_assignment ::
  "schema \<Rightarrow> store \<Rightarrow> auth_user \<Rightarrow> string \<Rightarrow> string \<Rightarrow> bool \<Rightarrow> store \<times> (error + timetable)" where
  "update_assignment sch s user i teacherId_p isPrimary_d =
     (case authorize [''SUPER_ADMIN'', ''ADMIN''] user of
        Some e \<Rightarrow> (s, Inl e)
      | None \<Rightarrow>
          if find (\<lambda>c. c_id c = i \<and> c_instituteId c = user_instituteId user) (class_tbl s) = None
          then (s, Inl (AppError 404 ''Class not found''))
          else
            (case find (\<lambda>e. classId e = i \<and> teacherId e = teacherId_p) (timetable_tbl s) of
               None \<Rightarrow> (s, Inl (AppError 404 ''Teacher assignment not found''))
             | Some assignment \<Rightarrow>
                 (let s1 = (if isPrimary_d
                            then prisma_updateMany s
                                   (\<lambda>e. classId e = i \<and> isPrimary e \<and> teacherId e \<noteq> teacherId_p)
                                   (\<lambda>e. e\<lparr>isPrimary := False\<rparr>)
                            else s)
                  in case prisma_update sch s1 (tt_id assignment)
                            (\<lambda>e. e\<lparr>isPrimary := isPrimary_d\<rparr>) of
                       Inl e \<Rightarrow> (s1, Inl e)
                     | Inr s' \<Rightarrow> (s', Inr (assignment\<lparr>isPrimary := isPrimary_d\<rparr>)))))"

text \<open>DELETE /:id/teachers/:teacherId.\<close>

definition remove_assignment ::
  "store \<Rightarrow> auth_user \<Rightarrow> string \<Rightarrow> string \<Rightarrow> store \<times> (error + unit)" where
  "remove_assignment s user i teacherId_p =
     (case authorize [''SUPER_ADMIN'', ''ADMIN''] user of
        Some e \<Rightarrow> (s, Inl e)
      | None \<Rightarrow>
          if find (\<lambda>c. c_id c = i \<and> c_instituteId c = user_instituteId user) (class_tbl s) = None
          then (s, Inl (AppError 404 ''Class not found''))
          else
            (case find (\<lambda>e. classId e = i \<and> teacherId e = teacherId_p) (timetable_tbl s) of
               None \<Rightarrow> (s, Inl (AppError 404 ''Teacher assignment not found''))
             | Some assignment \<Rightarrow>
                 (case prisma_delete s (tt_id assignment) of
                    Inl e \<Rightarrow> (s, Inl e)
                  | Inr s' \<Rightarrow> (s', Inr ()))))"

section \<open>Invariants of the timetable table\<close>

text \<open>
  Two active rows of one teacher on one day whose half-open ranges overlap; the table is
  free of double booking when no two rows with different identifiers are such a pair.
\<close>

definition same_slot_overlap :: "timetable \<Rightarrow> timetable \<Rightarrow> bool" where
  "same_slot_overlap a b =
     (isActive a \<and> isActive b \<and> teacherId a = teacherId b \<and> dayOfWeek a = dayOfWeek b
      \<and> spec_overlaps (startTime a, endTime a) (startTime b, endTime b))"

definition double_bookings :: "timetable list \<Rightarrow> (timetable \<times> timetable) list" where
  "double_bookings rows =
     filter (\<lambda>(a, b). tt_id a \<noteq> tt_id b \<and> same_slot_overlap a b) (List.product rows rows)"

definition no_double_booking :: "timetable list \<Rightarrow> bool" where
  "no_double_booking rows = (double_bookings rows = [])"

text \<open>The identifier is the primary key of the table.\<close>

definition table_ok :: "timetable list \<Rightarrow> bool" where
  "table_ok rows = (distinct (map tt_id rows) \<and> no_double_booking rows)"

text \<open>The rows of a class marked primary, and the active ones among them.\<close>

definition primary_rows :: "string \<Rightarrow> timetable list \<Rightarrow> timetable list" where
  "primary_rows c rows = filter (\<lambda>e. classId e = c \<and> isPrimary e) rows"

definition primaries :: "string \<Rightarrow> timetable list \<Rightarrow> timetable list" where
  "primaries c rows = filter (\<lambda>e. classId e = c \<and> isPrimary e \<and> isActive e) rows"

text \<open>Every class has at most one active row marked primary.\<close>

definition one_primary_per_class :: "timetable list \<Rightarrow> bool" where
  "one_primary_per_class rows = list_all (\<lambda>e. length (primaries (classId e) rows) \<le> 1) rows"

text \<open>The two lookups that every schedule create makes before it looks at the times.\<close>

definition teacher_found :: "store \<Rightarrow> auth_user \<Rightarrow> string \<Rightarrow> bool" where
  "teacher_found s user t =
     (find (\<lambda>u. u_id u = t \<and> u_instituteId u = user_instituteId user \<and> u_role u = ''TEACHER'')
        (user_tbl s) \<noteq> None)"

definition class_found :: "store \<Rightarrow> auth_user \<Rightarrow> string \<Rightarrow> bool" where
  "class_found s user c =
     (find (\<lambda>x. c_id x = c \<and> c_instituteId x = user_instituteId user) (class_tbl s) \<noteq> None)"

section \<open>Concrete states\<close>

definition inst_1 :: string where "inst_1 = ''f0000000-0000-4000-8000-000000000001''"
definition inst_2 :: string where "inst_2 = ''f0000000-0000-4000-8000-000000000002''"
definition teacher_T :: string where "teacher_T = ''b0000000-0000-4000-8000-000000000001''"
definition teacher_U :: string where "teacher_U = ''b0000000-0000-4000-8000-000000000002''"
definition teacher_V :: string where "teacher_V = ''b0000000-0000-4000-8000-000000000003''"
definition teacher_W :: string where "teacher_W = ''b0000000-0000-4000-8000-000000000004''"
definition subject_S :: string where "subject_S = ''c0000000-0000-4000-8000-000000000001''"
definition subject_R :: string where "subject_R = ''c0000000-0000-4000-8000-000000000002''"
definition class_A :: string where "class_A = ''d0000000-0000-4000-8000-000000000001''"
definition class_B :: string where "class_B = ''d0000000-0000-4000-8000-000000000002''"
definition class_Z :: string where "class_Z = ''d0000000-0000-4000-8000-000000000003''"
definition id_1 :: string where "id_1 = ''e0000000-0000-4000-8000-000000000001''"
definition id_2 :: string where "id_2 = ''e0000000-0000-4000-8000-000000000002''"
definition id_3 :: string where "id_3 = ''e0000000-0000-4000-8000-000000000003''"
definition id_4 :: string where "id_4 = ''e0000000-0000-4000-8000-000000000004''"

text \<open>A schema that admits every row, one that refuses every row.\<close>

definition sch_open :: schema where
  "sch_open = \<lparr>accepts = (\<lambda>s row. True), default_isPrimary = False, default_isActive = True\<rparr>"

definition sch_refusing :: schema where
  "sch_refusing = \<lparr>accepts = (\<lambda>s row. False), default_isPrimary = False, default_isActive = True\<rparr>"

definition admin_1 :: auth_user where
  "admin_1 = \<lparr>user_instituteId = inst_1, user_role = ''ADMIN''\<rparr>"

definition mk_entry ::
  "string \<Rightarrow> string \<Rightarrow> string \<Rightarrow> string \<Rightarrow> DayOfWeek \<Rightarrow> string \<Rightarrow> string \<Rightarrow> bool \<Rightarrow> timetable" where
  "mk_entry i c sub t d st en prim =
     \<lparr>tt_id = i, classId = c, subjectId = sub, teacherId = t, dayOfWeek = d,
      startTime = st, endTime = en, room = None, isPrimary = prim, isActive = True\<rparr>"

definition mk_teacher :: "string \<Rightarrow> string \<Rightarrow> user_row" where
  "mk_teacher i inst = \<lparr>u_id = i, u_instituteId = inst, u_role = ''TEACHER'', u_isActive = True\<rparr>"

text \<open>
  The scenario of the specification: institute 1 with teacher T qualified for subject S,
  classes A and B, and the entry T / MONDAY / 09:00 to 10:00 / class A.
\<close>

definition entry_1 :: timetable where
  "entry_1 = mk_entry id_1 class_A subject_S teacher_T MONDAY ''09:00'' ''10:00'' True"

definition st_scenario :: store where
  "st_scenario =
     \<lparr>timetable_tbl = [entry_1],
      class_tbl = [\<lparr>c_id = class_A, c_instituteId = inst_1, c_name = ''ClassA''\<rparr>,
                   \<lparr>c_id = class_B, c_instituteId = inst_1, c_name = ''ClassB''\<rparr>],
      subject_tbl = [\<lparr>s_id = subject_S, s_instituteId = inst_1, s_name = ''Maths''\<rparr>],
      user_tbl = [mk_teacher teacher_T inst_1, mk_teacher teacher_U inst_1,
                  mk_teacher teacher_V inst_1],
      teacherSubject_tbl = [\<lparr>ts_teacherId = teacher_T, ts_subjectId = subject_S\<rparr>,
                            \<lparr>ts_teacherId = teacher_U, ts_subjectId = subject_S\<rparr>]\<rparr>"

text \<open>The same, with teacher U teaching S to class B on TUESDAY as that class's primary.\<close>

definition entry_3 :: timetable where
  "entry_3 = mk_entry id_3 class_B subject_S teacher_U TUESDAY ''09:00'' ''10:00'' True"

definition st_two_classes :: store where
  "st_two_classes = st_scenario\<lparr>timetable_tbl := [entry_1, entry_3]\<rparr>"

text \<open>The scenario with a second institute that has its own teacher, class and entry.\<close>

definition entry_4 :: timetable where
  "entry_4 = mk_entry id_4 class_Z subject_R teacher_W FRIDAY ''14:00'' ''15:00'' True"

definition st_two_institutes :: store where
  "st_two_institutes =
     st_scenario
       \<lparr>timetable_tbl := [entry_1, entry_4],
        class_tbl := class_tbl st_scenario
                     @ [\<lparr>c_id = class_Z, c_instituteId = inst_2, c_name = ''ClassZ''\<rparr>],
        subject_tbl := subject_tbl st_scenario
                       @ [\<lparr>s_id = subject_R, s_instituteId = inst_2, s_name = ''Physics''\<rparr>],
        user_tbl := user_tbl st_scenario @ [mk_teacher teacher_W inst_2],
        teacherSubject_tbl := teacherSubject_tbl st_scenario
                              @ [\<lparr>ts_teacherId = teacher_W, ts_subjectId = subject_R\<rparr>]\<rparr>"

text \<open>A schema whose default for \<open>isPrimary\<close> is true.\<close>

definition sch_primary_default :: schema where
  "sch_primary_default =
     \<lparr>accepts = (\<lambda>s row. True), default_isPrimary = True, default_isActive = True\<rparr>"

text \<open>
  Teacher T with two rows in class A, the second one primary; and the two classes with T
  also assigned to class B, not as its primary.
\<close>

definition entry_5 :: timetable where
  "entry_5 = mk_entry id_1 class_A subject_S teacher_T MONDAY ''09:00'' ''10:00'' False"

definition entry_6 :: timetable where
  "entry_6 = mk_entry id_3 class_A subject_S teacher_T TUESDAY ''09:00'' ''10:00'' True"

definition st_two_rows :: store where
  "st_two_rows = st_scenario\<lparr>timetable_tbl := [entry_5, entry_6]\<rparr>"

definition entry_7 :: timetable where
  "entry_7 = mk_entry id_2 class_B subject_S teacher_T WEDNESDAY ''09:00'' ''10:00'' False"

definition st_assigned :: store where
  "st_assigned = st_scenario\<lparr>timetable_tbl := [entry_1, entry_3, entry_7]\<rparr>"

definition no_patch :: timetable_patch where
  "no_patch = \<lparr>p_classId = None, p_subjectId = None, p_teacherId = None, p_dayOfWeek = None,
               p_startTime = None, p_endTime = None, p_room = None, p_isPrimary = None\<rparr>"

definition create_body :: "string \<Rightarrow> DayOfWeek \<Rightarrow> string \<Rightarrow> string \<Rightarrow> timetable_input" where
  "create_body c d st en =
     \<lparr>in_classId = c, in_subjectId = subject_S, in_teacherId = teacher_T, in_dayOfWeek = d,
      in_startTime = st, in_endTime = en, in_room = None, in_isPrimary = None\<rparr>"

section \<open>Properties of the interval predicates and of the table invariant\<close>

lemma overlap_imp_three_clause:
  "spec_overlaps (es, ee) (cs, ce) \<Longrightarrow> three_clause es ee cs ce"
  unfolding three_clause_def spec_overlaps_def by auto

lemma spec_overlaps_sym: "spec_overlaps a b = spec_overlaps b a"
  unfolding spec_overlaps_def by auto

lemma same_slot_overlap_sym: "same_slot_overlap a b = same_slot_overlap b a"
  unfolding same_slot_overlap_def using spec_overlaps_sym [of "(startTime a, endTime a)"] by auto

lemma no_double_booking_iff:
  "no_double_booking rows \<longleftrightarrow>
     (\<forall>a \<in> set rows. \<forall>b \<in> set rows. tt_id a \<noteq> tt_id b \<longrightarrow> \<not> same_slot_overlap a b)"
  unfolding no_double_booking_def double_bookings_def by (auto simp: filter_empty_conv)

lemma table_ok_filter:
  assumes "table_ok rows"
  shows "table_ok (filter P rows)"
  using assms unfolding table_ok_def no_double_booking_iff
  by (auto simp: distinct_map_filter)

lemma table_ok_map:
  assumes ok: "table_ok rows"
    and g: "\<And>e. tt_id (g e) = tt_id e \<and> isActive (g e) = isActive e \<and> teacherId (g e) = teacherId e
              \<and> dayOfWeek (g e) = dayOfWeek e \<and> startTime (g e) = startTime e \<and> endTime (g e) = endTime e"
  shows "table_ok (map g rows)"
proof -
  have "tt_id \<circ> g = tt_id" using g by auto
  then have ids: "distinct (map tt_id (map g rows)) = distinct (map tt_id rows)" by simp
  have ov: "\<And>a b. same_slot_overlap (g a) (g b) = same_slot_overlap a b"
    using g by (simp add: same_slot_overlap_def)
  have "no_double_booking (map g rows)"
    using ok unfolding table_ok_def no_double_booking_iff by (auto simp: ov g)
  then show ?thesis
    using ok ids unfolding table_ok_def by blast
qed

lemma table_ok_append:
  assumes ok: "table_ok rows"
    and fresh: "tt_id row \<notin> set (map tt_id rows)"
    and free: "\<forall>e \<in> set rows. \<not> (teacherId e = teacherId row \<and> dayOfWeek e = dayOfWeek row
                 \<and> three_clause (startTime e) (endTime e) (startTime row) (endTime row))"
  shows "table_ok (rows @ [row])"
proof -
  have n: "\<And>e. e \<in> set rows \<Longrightarrow> \<not> same_slot_overlap e row"
    using free overlap_imp_three_clause unfolding same_slot_overlap_def by blast
  then have n': "\<And>e. e \<in> set rows \<Longrightarrow> \<not> same_slot_overlap row e"
    using same_slot_overlap_sym by blast
  show ?thesis
    using ok fresh n n' unfolding table_ok_def no_double_booking_iff by auto
qed

lemma table_ok_replace:
  assumes ok: "table_ok rows"
    and ex: "existing \<in> set rows" and exid: "tt_id existing = i"
    and g: "tt_id (g existing) = i \<and> isActive (g existing) = isActive existing
            \<and> teacherId (g existing) = teacherId existing"
    and free: "\<forall>e \<in> set rows. \<not> (tt_id e \<noteq> i \<and> teacherId e = teacherId existing
                 \<and> dayOfWeek e = dayOfWeek (g existing)
                 \<and> three_clause (startTime e) (endTime e) (startTime (g existing)) (endTime (g existing)))"
  shows "table_ok (map (\<lambda>e. if tt_id e = i then g e else e) rows)"
proof -
  define h where "h = (\<lambda>e. if tt_id e = i then g e else e)"
  have d: "distinct (map tt_id rows)" using ok by (simp add: table_ok_def)
  have uniq: "\<And>e. e \<in> set rows \<Longrightarrow> tt_id e = i \<Longrightarrow> e = existing"
    using d ex exid inj_onD [of tt_id "set rows"] by (auto simp: distinct_map)
  have h_hit: "\<And>e. e \<in> set rows \<Longrightarrow> tt_id e = i \<Longrightarrow> h e = g existing"
    using uniq by (simp add: h_def)
  have h_miss: "\<And>e. tt_id e \<noteq> i \<Longrightarrow> h e = e"
    by (simp add: h_def)
  have hid: "\<And>e. e \<in> set rows \<Longrightarrow> tt_id (h e) = tt_id e"
    using h_hit h_miss g by metis
  then have "map (\<lambda>e. tt_id (h e)) rows = map tt_id rows" by (intro map_cong) auto
  then have ids: "map tt_id (map h rows) = map tt_id rows" by (simp add: comp_def)
  have n: "\<And>e. e \<in> set rows \<Longrightarrow> tt_id e \<noteq> i \<Longrightarrow> \<not> same_slot_overlap e (g existing)"
    using free g overlap_imp_three_clause unfolding same_slot_overlap_def by metis
  then have n': "\<And>e. e \<in> set rows \<Longrightarrow> tt_id e \<noteq> i \<Longrightarrow> \<not> same_slot_overlap (g existing) e"
    using same_slot_overlap_sym by blast
  have old: "\<And>a b. a \<in> set rows \<Longrightarrow> b \<in> set rows \<Longrightarrow> tt_id a \<noteq> tt_id b \<Longrightarrow> \<not> same_slot_overlap a b"
    using ok unfolding table_ok_def no_double_booking_iff by blast
  have new: "\<not> same_slot_overlap (h a) (h b)"
    if a: "a \<in> set rows" and b: "b \<in> set rows" and ne: "tt_id (h a) \<noteq> tt_id (h b)" for a b
  proof -
    have ne': "tt_id a \<noteq> tt_id b" using ne hid a b by simp
    show ?thesis
    proof (cases "tt_id a = i")
      case True
      then have bi: "tt_id b \<noteq> i" using ne' by simp
      show ?thesis using h_hit [OF a True] h_miss [OF bi] n' [OF b bi] by simp
    next
      case False
      show ?thesis
      proof (cases "tt_id b = i")
        case True
        then show ?thesis using h_miss [OF False] h_hit [OF b True] n [OF a False] by simp
      next
        case bf: False
        then show ?thesis using h_miss [OF False] h_miss [OF bf] old [OF a b ne'] by simp
      qed
    qed
  qed
  have "distinct (map tt_id (map h rows))" using d ids by metis
  moreover have "no_double_booking (map h rows)"
    unfolding no_double_booking_iff
  proof (intro ballI impI)
    fix a' b'
    assume A: "a' \<in> set (map h rows)" and B: "b' \<in> set (map h rows)" and ne: "tt_id a' \<noteq> tt_id b'"
    from A obtain a where a: "a \<in> set rows" "a' = h a" by auto
    from B obtain b where b: "b \<in> set rows" "b' = h b" by auto
    show "\<not> same_slot_overlap a' b'"
      using new [OF a(1) b(1)] ne a(2) b(2) by blast
  qed
  ultimately show ?thesis unfolding table_ok_def h_def by blast
qed


lemma prisma_create_success:
  assumes "prisma_create sch s row = Inr s'"
  shows "s' = s\<lparr>timetable_tbl := timetable_tbl s @ [row]\<rparr> \<and> tt_id row \<notin> set (map tt_id (timetable_tbl s))"
  using assms by (simp add: prisma_create_def split: if_splits)

lemma prisma_update_success:
  assumes "prisma_update sch s i f = Inr s'"
  shows "s' = s\<lparr>timetable_tbl := map (\<lambda>e. if tt_id e = i then f e else e) (timetable_tbl s)\<rparr>"
  using assms by (auto simp: prisma_update_def split: option.splits if_splits)

lemma prisma_delete_success:
  assumes "prisma_delete s i = Inr s'"
  shows "s' = s\<lparr>timetable_tbl := filter (\<lambda>e. tt_id e \<noteq> i) (timetable_tbl s)\<rparr>"
  using assms by (auto simp: prisma_delete_def split: option.splits)

lemma schedule_create_success:
  assumes "schedule_create sch nid s user t body = (s', Inr r)"
  shows "s' = s\<lparr>timetable_tbl := timetable_tbl s @ [r]\<rparr>"
    and "tt_id r \<notin> set (map tt_id (timetable_tbl s))"
    and "\<forall>e \<in> set (timetable_tbl s). \<not> (teacherId e = teacherId r \<and> dayOfWeek e = dayOfWeek r
           \<and> three_clause (startTime e) (endTime e) (startTime r) (endTime r))"
  using assms
  by (auto simp: schedule_create_def createScheduleSchema_def Let_def find_None_iff
           dest!: prisma_create_success split: option.splits sum.splits if_splits)

lemma schedule_create_preserves:
  assumes "table_ok (timetable_tbl s)" and "schedule_create sch nid s user t body = (s', Inr r)"
  shows "table_ok (timetable_tbl s')"
  using schedule_create_success [OF assms(2)] table_ok_append [OF assms(1), of r] by simp

lemma schedule_update_success:
  assumes "schedule_update sch s user i body = (s', Inr r)"
  shows "\<exists>existing \<in> set (timetable_tbl s). tt_id existing = i
           \<and> s' = s\<lparr>timetable_tbl := map (\<lambda>e. if tt_id e = i then apply_schedule_patch body e else e) (timetable_tbl s)\<rparr>
           \<and> (\<forall>e \<in> set (timetable_tbl s). \<not> (tt_id e \<noteq> i \<and> teacherId e = teacherId existing
                 \<and> dayOfWeek e = dayOfWeek (apply_schedule_patch body existing)
                 \<and> three_clause (startTime e) (endTime e) (startTime (apply_schedule_patch body existing))
                      (endTime (apply_schedule_patch body existing))))"
proof -
  have p: "updateScheduleSchema body = Inr body"
    using assms by (auto simp: schedule_update_def updateScheduleSchema_def split: option.splits sum.splits if_splits)
  from assms p obtain existing where
    f: "find (\<lambda>e. tt_id e = i \<and> teacher_in_institute s (user_instituteId user) e) (timetable_tbl s) = Some existing"
    by (auto simp: schedule_update_def split: option.splits sum.splits if_splits)
  then have mem: "existing \<in> set (timetable_tbl s)" and eid: "tt_id existing = i"
    by (auto simp: find_Some_iff)
  have fields: "dayOfWeek (apply_schedule_patch body existing) = or_else (sp_dayOfWeek body) (dayOfWeek existing)"
    "startTime (apply_schedule_patch body existing) = or_else (sp_startTime body) (startTime existing)"
    "endTime (apply_schedule_patch body existing) = or_else (sp_endTime body) (endTime existing)"
    by (simp_all add: apply_schedule_patch_def)
  from assms p f have
    nf: "find (\<lambda>e. tt_id e \<noteq> i \<and> teacherId e = teacherId existing
                             \<and> dayOfWeek e = or_else (sp_dayOfWeek body) (dayOfWeek existing)
                             \<and> three_clause (startTime e) (endTime e)
                                  (or_else (sp_startTime body) (startTime existing))
                                  (or_else (sp_endTime body) (endTime existing)))
                    (timetable_tbl s) = None"
    and u: "prisma_update sch s i (apply_schedule_patch body) = Inr s'"
    by (auto simp: schedule_update_def split: option.splits sum.splits if_splits)
  have free: "\<forall>e \<in> set (timetable_tbl s). \<not> (tt_id e \<noteq> i \<and> teacherId e = teacherId existing
                 \<and> dayOfWeek e = dayOfWeek (apply_schedule_patch body existing)
                 \<and> three_clause (startTime e) (endTime e) (startTime (apply_schedule_patch body existing))
                      (endTime (apply_schedule_patch body existing)))"
    unfolding fields using nf unfolding find_None_iff by blast
  show ?thesis
    by (rule bexI [OF _ mem]) (intro conjI eid prisma_update_success [OF u] free)
qed

lemma schedule_update_preserves:
  assumes "table_ok (timetable_tbl s)" and "schedule_update sch s user i body = (s', Inr r)"
  shows "table_ok (timetable_tbl s')"
proof -
  from schedule_update_success [OF assms(2)] obtain existing where
    e: "existing \<in> set (timetable_tbl s)" "tt_id existing = i"
    and s': "s' = s\<lparr>timetable_tbl := map (\<lambda>e. if tt_id e = i then apply_schedule_patch body e else e) (timetable_tbl s)\<rparr>"
    and free: "\<forall>e \<in> set (timetable_tbl s). \<not> (tt_id e \<noteq> i \<and> teacherId e = teacherId existing
                 \<and> dayOfWeek e = dayOfWeek (apply_schedule_patch body existing)
                 \<and> three_clause (startTime e) (endTime e) (startTime (apply_schedule_patch body existing))
                      (endTime (apply_schedule_patch body existing)))"
    by blast
  have g: "tt_id (apply_schedule_patch body existing) = i
           \<and> isActive (apply_schedule_patch body existing) = isActive existing
           \<and> teacherId (apply_schedule_patch body existing) = teacherId existing"
    using e by (simp add: apply_schedule_patch_def)
  show ?thesis
    using table_ok_replace [of "timetable_tbl s" existing i "apply_schedule_patch body", OF assms(1) e g free] s' by simp
qed

lemma deletes_success:
  assumes "timetable_delete s user i = (s', Inr ()) \<or> schedule_delete s user i = (s', Inr ())"
  shows "s' = s\<lparr>timetable_tbl := filter (\<lambda>e. tt_id e \<noteq> i) (timetable_tbl s)\<rparr>"
  using assms
  by (auto simp: timetable_delete_def schedule_delete_def dest!: prisma_delete_success
           split: option.splits sum.splits)

lemma remove_assignment_success:
  assumes "remove_assignment s user c t = (s', Inr ())"
  shows "\<exists>i. s' = s\<lparr>timetable_tbl := filter (\<lambda>e. tt_id e \<noteq> i) (timetable_tbl s)\<rparr>"
  using assms
  by (auto simp: remove_assignment_def dest!: prisma_delete_success
           split: option.splits sum.splits if_splits)

lemma update_assignment_success:
  assumes "update_assignment sch s user c t b = (s', Inr r)"
  shows "\<exists>assignment. find (\<lambda>e. classId e = c \<and> teacherId e = t) (timetable_tbl s) = Some assignment
           \<and> r = assignment\<lparr>isPrimary := b\<rparr>
           \<and> s' = s\<lparr>timetable_tbl :=
                    map (\<lambda>e. if tt_id e = tt_id assignment then e\<lparr>isPrimary := b\<rparr> else e)
                      (map (\<lambda>e. if b \<and> classId e = c \<and> isPrimary e \<and> teacherId e \<noteq> t
                                then e\<lparr>isPrimary := False\<rparr> else e) (timetable_tbl s))\<rparr>"
  using assms
  by (cases b)
     (auto simp: update_assignment_def prisma_updateMany_def Let_def dest!: prisma_update_success
           split: option.splits sum.splits if_splits)

lemma update_assignment_preserves:
  assumes "table_ok (timetable_tbl s)" and "update_assignment sch s user c t b = (s', Inr r)"
  shows "table_ok (timetable_tbl s')"
proof -
  from update_assignment_success [OF assms(2)] obtain assignment :: timetable where
    s': "s' = s\<lparr>timetable_tbl :=
                    map (\<lambda>e. if tt_id e = tt_id assignment then e\<lparr>isPrimary := b\<rparr> else e)
                      (map (\<lambda>e. if b \<and> classId e = c \<and> isPrimary e \<and> teacherId e \<noteq> t
                                then e\<lparr>isPrimary := False\<rparr> else e) (timetable_tbl s))\<rparr>"
    by blast
  show ?thesis
    unfolding s' using assms(1)
    by (simp add: table_ok_map)
qed

section \<open>What a successful promotion leaves behind\<close>

lemma assign_teacher_success:
  assumes "assign_teacher sch nid s user c body = (s', Inr r)"
  shows "\<exists>b. b = (case as_isPrimary body of None \<Rightarrow> False | Some x \<Rightarrow> x)
           \<and> s' = s\<lparr>timetable_tbl :=
                    map (\<lambda>e. if b \<and> classId e = c \<and> isPrimary e then e\<lparr>isPrimary := False\<rparr> else e)
                      (timetable_tbl s) @ [r]\<rparr>
           \<and> classId r = c \<and> isPrimary r = b \<and> isActive r = default_isActive sch"
proof -
  have p: "assignTeacherSchema body
           = Inr (body\<lparr>as_isPrimary := Some (case as_isPrimary body of None \<Rightarrow> False | Some x \<Rightarrow> x)\<rparr>)"
    using assms by (auto simp: assign_teacher_def assignTeacherSchema_def split: option.splits if_splits)
  show ?thesis
    using assms unfolding assign_teacher_def p
    by (cases "case as_isPrimary body of None \<Rightarrow> False | Some x \<Rightarrow> x")
       (auto simp: prisma_updateMany_def Let_def dest!: prisma_create_success
             split: option.splits if_splits sum.splits)
qed

lemma assign_teacher_primary:
  assumes "assign_teacher sch nid s user c body = (s', Inr r)" and "as_isPrimary body = Some True"
  shows "primary_rows c (timetable_tbl s') = [r] \<and> isActive r = default_isActive sch"
proof -
  from assign_teacher_success [OF assms(1)] assms(2) have
    s': "s' = s\<lparr>timetable_tbl :=
                    map (\<lambda>e. if classId e = c \<and> isPrimary e then e\<lparr>isPrimary := False\<rparr> else e)
                      (timetable_tbl s) @ [r]\<rparr>"
    and r: "classId r = c" "isPrimary r" "isActive r = default_isActive sch"
    by auto
  have "filter (\<lambda>e. classId e = c \<and> isPrimary e)
          (map (\<lambda>e. if classId e = c \<and> isPrimary e then e\<lparr>isPrimary := False\<rparr> else e) rows) = []" for rows
    by (induction rows) auto
  then show ?thesis
    using r unfolding s' primary_rows_def by simp
qed

lemma update_assignment_primary:
  assumes d: "distinct (map tt_id (timetable_tbl s))"
    and u: "update_assignment sch s user c t True = (s', Inr r)"
  shows "r \<in> set (primary_rows c (timetable_tbl s'))"
    and "\<forall>e \<in> set (primary_rows c (timetable_tbl s')). teacherId e = t"
    and "length (filter (\<lambda>e. classId e = c \<and> teacherId e = t) (timetable_tbl s)) = 1
         \<Longrightarrow> primary_rows c (timetable_tbl s') = [r]"
proof -
  define dem where "dem = (\<lambda>e::timetable. if classId e = c \<and> isPrimary e \<and> teacherId e \<noteq> t
                                then e\<lparr>isPrimary := False\<rparr> else e)"
  from update_assignment_success [OF u] obtain assignment :: timetable where
    f: "find (\<lambda>e. classId e = c \<and> teacherId e = t) (timetable_tbl s) = Some assignment"
    and r: "r = assignment\<lparr>isPrimary := True\<rparr>"
    and s': "s' = s\<lparr>timetable_tbl :=
                    map (\<lambda>e. if tt_id e = tt_id assignment then e\<lparr>isPrimary := True\<rparr> else e)
                      (map dem (timetable_tbl s))\<rparr>"
    unfolding dem_def by auto
  define h where "h = (\<lambda>e. if tt_id (dem e) = tt_id assignment then (dem e)\<lparr>isPrimary := True\<rparr> else dem e)"
  have tbl: "timetable_tbl s' = map h (timetable_tbl s)"
    unfolding s' h_def by simp
  have mem: "assignment \<in> set (timetable_tbl s)" and ac: "classId assignment = c" and at: "teacherId assignment = t"
    using f by (auto simp: find_Some_iff)
  have uniq: "\<And>e. e \<in> set (timetable_tbl s) \<Longrightarrow> tt_id e = tt_id assignment \<Longrightarrow> e = assignment"
    using d mem inj_onD [of tt_id "set (timetable_tbl s)"] by (auto simp: distinct_map)
  have dem_id: "\<And>e. tt_id (dem e) = tt_id e" by (simp add: dem_def)
  have h_a: "h assignment = r" using at by (simp add: h_def dem_def r)
  have h_other: "\<And>e. e \<in> set (timetable_tbl s) \<Longrightarrow> e \<noteq> assignment \<Longrightarrow> h e = dem e"
    using uniq dem_id by (auto simp: h_def)
  have key: "(classId (h e) = c \<and> isPrimary (h e)) \<longrightarrow> teacherId (h e) = t" if "e \<in> set (timetable_tbl s)" for e
  proof (cases "e = assignment")
    case True then show ?thesis using h_a r at by simp
  next
    case False then show ?thesis using h_other [OF that False] by (auto simp: dem_def)
  qed
  show "r \<in> set (primary_rows c (timetable_tbl s'))"
    unfolding tbl primary_rows_def using mem h_a r ac by force
  show "\<forall>e \<in> set (primary_rows c (timetable_tbl s')). teacherId e = t"
    unfolding tbl primary_rows_def using key by auto
  show "primary_rows c (timetable_tbl s') = [r]"
    if len: "length (filter (\<lambda>e. classId e = c \<and> teacherId e = t) (timetable_tbl s)) = 1"
  proof -
    from len obtain x where
      one: "filter (\<lambda>e. classId e = c \<and> teacherId e = t) (timetable_tbl s) = [x]"
      by (cases "filter (\<lambda>e. classId e = c \<and> teacherId e = t) (timetable_tbl s)") auto
    have "assignment \<in> set (filter (\<lambda>e. classId e = c \<and> teacherId e = t) (timetable_tbl s))"
      using mem ac at by simp
    then have one': "filter (\<lambda>e. classId e = c \<and> teacherId e = t) (timetable_tbl s) = [assignment]"
      unfolding one by simp
    have only: "\<And>e. e \<in> set (timetable_tbl s) \<Longrightarrow> classId e = c \<Longrightarrow> teacherId e = t \<Longrightarrow> e = assignment"
    proof -
      fix e assume "e \<in> set (timetable_tbl s)" "classId e = c" "teacherId e = t"
      then have "e \<in> set (filter (\<lambda>e. classId e = c \<and> teacherId e = t) (timetable_tbl s))" by simp
      then show "e = assignment" unfolding one' by simp
    qed
    have h_fields: "\<And>e. classId (h e) = classId e \<and> teacherId (h e) = teacherId e"
      by (simp add: h_def dem_def)
    have eq: "(classId (h e) = c \<and> isPrimary (h e)) = (classId e = c \<and> teacherId e = t)"
      if e: "e \<in> set (timetable_tbl s)" for e
    proof
      assume "classId (h e) = c \<and> isPrimary (h e)"
      then show "classId e = c \<and> teacherId e = t" using key [OF e] h_fields by metis
    next
      assume "classId e = c \<and> teacherId e = t"
      then have "e = assignment" using only e by blast
      then show "classId (h e) = c \<and> isPrimary (h e)" using h_a r ac by simp
    qed
    have "primary_rows c (timetable_tbl s')
          = map h (filter (\<lambda>e. classId (h e) = c \<and> isPrimary (h e)) (timetable_tbl s))"
      unfolding tbl primary_rows_def by (simp add: filter_map comp_def)
    also have "filter (\<lambda>e. classId (h e) = c \<and> isPrimary (h e)) (timetable_tbl s)
               = filter (\<lambda>e. classId e = c \<and> teacherId e = t) (timetable_tbl s)"
      using eq by (intro filter_cong) auto
    finally show ?thesis using one' h_a by simp
  qed
qed

section \<open>At most one primary row per class\<close>

lemma one_primary_per_class_iff:
  "one_primary_per_class rows \<longleftrightarrow> (\<forall>c. length (primaries c rows) \<le> 1)"
proof
  assume a: "one_primary_per_class rows"
  show "\<forall>c. length (primaries c rows) \<le> 1"
  proof
    fix c
    show "length (primaries c rows) \<le> 1"
    proof (cases "primaries c rows")
      case Nil then show ?thesis by simp
    next
      case (Cons e es)
      then have "e \<in> set (primaries c rows)" by simp
      then have "e \<in> set rows" and "classId e = c" by (auto simp: primaries_def)
      then show ?thesis using a by (auto simp: one_primary_per_class_def list_all_iff)
    qed
  qed
next
  assume "\<forall>c. length (primaries c rows) \<le> 1"
  then show "one_primary_per_class rows"
    by (simp add: one_primary_per_class_def list_all_iff)
qed

lemma length_filter_map_le:
  assumes "\<forall>e \<in> set rows. P (g e) \<longrightarrow> P e"
  shows "length (filter P (map g rows)) \<le> length (filter P rows)"
  using assms by (induction rows) auto

lemma primaries_filter_le:
  "length (primaries c (filter Q rows)) \<le> length (primaries c rows)"
  unfolding primaries_def by (induction rows) auto

lemma primaries_le_primary_rows:
  "length (primaries c rows) \<le> length (primary_rows c rows)"
  unfolding primaries_def primary_rows_def by (induction rows) auto

lemma one_primary_filter:
  assumes "one_primary_per_class rows"
  shows "one_primary_per_class (filter Q rows)"
  using assms primaries_filter_le [of _ Q rows] unfolding one_primary_per_class_iff
  by (meson le_trans)

lemma one_primary_map:
  assumes inv: "one_primary_per_class rows"
    and g: "\<forall>e \<in> set rows. classId (g e) = classId e
              \<and> (isPrimary (g e) \<and> isActive (g e) \<longrightarrow> isPrimary e \<and> isActive e)"
  shows "one_primary_per_class (map g rows)"
  unfolding one_primary_per_class_iff
proof
  fix c
  have "length (primaries c (map g rows)) \<le> length (primaries c rows)"
    unfolding primaries_def using g by (intro length_filter_map_le) auto
  then show "length (primaries c (map g rows)) \<le> 1"
    using inv unfolding one_primary_per_class_iff by (meson le_trans)
qed

lemma one_primary_append:
  assumes inv: "one_primary_per_class rows" and r: "\<not> isPrimary r"
  shows "one_primary_per_class (rows @ [r])"
  using inv r unfolding one_primary_per_class_iff primaries_def by simp

lemma assign_teacher_one_primary:
  assumes inv: "one_primary_per_class (timetable_tbl s)"
    and a: "assign_teacher sch nid s user c body = (s', Inr r)"
  shows "one_primary_per_class (timetable_tbl s')"
proof -
  from assign_teacher_success [OF a] obtain b where
    b: "b = (case as_isPrimary body of None \<Rightarrow> False | Some x \<Rightarrow> x)"
    and s': "s' = s\<lparr>timetable_tbl :=
                    map (\<lambda>e. if b \<and> classId e = c \<and> isPrimary e then e\<lparr>isPrimary := False\<rparr> else e)
                      (timetable_tbl s) @ [r]\<rparr>"
    and r: "classId r = c" "isPrimary r = b"
    by blast
  let ?dem = "\<lambda>e. if b \<and> classId e = c \<and> isPrimary e then e\<lparr>isPrimary := False\<rparr> else e"
  have g: "\<forall>e \<in> set (timetable_tbl s).
             classId (?dem e) = classId e
             \<and> (isPrimary (?dem e) \<and> isActive (?dem e) \<longrightarrow> isPrimary e \<and> isActive e)"
    by (simp split: if_splits)
  have m: "one_primary_per_class (map ?dem (timetable_tbl s))"
    using one_primary_map [OF inv g] .
  show ?thesis
  proof (cases b)
    case False
    then show ?thesis using one_primary_append [OF m, of r] r s' by simp
  next
    case True
    then have sb: "as_isPrimary body = Some True" using b by (auto split: option.splits)
    have pr: "primary_rows c (timetable_tbl s') = [r]"
      using assign_teacher_primary [OF a sb] by simp
    show ?thesis
      unfolding one_primary_per_class_iff
    proof
      fix c'
      show "length (primaries c' (timetable_tbl s')) \<le> 1"
      proof (cases "c' = c")
        case True
        then show ?thesis using primaries_le_primary_rows [of c "timetable_tbl s'"] pr by simp
      next
        case False
        then have "primaries c' (timetable_tbl s') = primaries c' (map ?dem (timetable_tbl s))"
          unfolding s' primaries_def using r by simp
        then show ?thesis using m unfolding one_primary_per_class_iff by simp
      qed
    qed
  qed
qed

lemma update_assignment_demote_one_primary:
  assumes inv: "one_primary_per_class (timetable_tbl s)"
    and u: "update_assignment sch s user c t False = (s', Inr r)"
  shows "one_primary_per_class (timetable_tbl s')"
proof -
  from update_assignment_success [OF u] obtain assignment :: timetable where
    s': "s' = s\<lparr>timetable_tbl :=
                    map (\<lambda>e. if tt_id e = tt_id assignment then e\<lparr>isPrimary := False\<rparr> else e)
                      (map (\<lambda>e. e) (timetable_tbl s))\<rparr>"
    by auto
  have g: "\<forall>e \<in> set (timetable_tbl s).
             classId (if tt_id e = tt_id assignment then e\<lparr>isPrimary := False\<rparr> else e) = classId e
             \<and> (isPrimary (if tt_id e = tt_id assignment then e\<lparr>isPrimary := False\<rparr> else e)
                  \<and> isActive (if tt_id e = tt_id assignment then e\<lparr>isPrimary := False\<rparr> else e)
                \<longrightarrow> isPrimary e \<and> isActive e)"
    by (simp split: if_splits)
  show ?thesis
    unfolding s' using one_primary_map [OF inv g] by simp
qed

lemma update_assignment_promote_one_primary:
  assumes inv: "one_primary_per_class (timetable_tbl s)"
    and d: "distinct (map tt_id (timetable_tbl s))"
    and one: "length (filter (\<lambda>e. classId e = c \<and> teacherId e = t) (timetable_tbl s)) = 1"
    and u: "update_assignment sch s user c t True = (s', Inr r)"
  shows "one_primary_per_class (timetable_tbl s')"
proof -
  define dem where "dem = (\<lambda>e::timetable. if classId e = c \<and> isPrimary e \<and> teacherId e \<noteq> t
                                then e\<lparr>isPrimary := False\<rparr> else e)"
  from update_assignment_success [OF u] obtain assignment :: timetable where
    f: "find (\<lambda>e. classId e = c \<and> teacherId e = t) (timetable_tbl s) = Some assignment"
    and s': "s' = s\<lparr>timetable_tbl :=
                    map (\<lambda>e. if tt_id e = tt_id assignment then e\<lparr>isPrimary := True\<rparr> else e)
                      (map dem (timetable_tbl s))\<rparr>"
    unfolding dem_def by auto
  define h where "h = (\<lambda>e. if tt_id (dem e) = tt_id assignment then (dem e)\<lparr>isPrimary := True\<rparr> else dem e)"
  have tbl: "timetable_tbl s' = map h (timetable_tbl s)"
    unfolding s' h_def by simp
  have mem: "assignment \<in> set (timetable_tbl s)" and ac: "classId assignment = c"
    using f by (auto simp: find_Some_iff)
  have uniq: "\<And>e. e \<in> set (timetable_tbl s) \<Longrightarrow> tt_id e = tt_id assignment \<Longrightarrow> e = assignment"
    using d mem inj_onD [of tt_id "set (timetable_tbl s)"] by (auto simp: distinct_map)
  have pr: "primary_rows c (timetable_tbl s') = [r]"
    using update_assignment_primary(3) [OF d u one] .
  show ?thesis
    unfolding one_primary_per_class_iff
  proof
    fix c'
    show "length (primaries c' (timetable_tbl s')) \<le> 1"
    proof (cases "c' = c")
      case True
      then show ?thesis using primaries_le_primary_rows [of c "timetable_tbl s'"] pr by simp
    next
      case False
      have keep: "\<forall>e \<in> set (timetable_tbl s).
                    (classId (h e) = c' \<and> isPrimary (h e) \<and> isActive (h e))
                    \<longrightarrow> (classId e = c' \<and> isPrimary e \<and> isActive e)"
      proof (intro ballI impI)
        fix e assume e: "e \<in> set (timetable_tbl s)"
          and p: "classId (h e) = c' \<and> isPrimary (h e) \<and> isActive (h e)"
        have cl: "classId (h e) = classId e" by (simp add: h_def dem_def)
        then have ne: "classId e \<noteq> c" using p False by simp
        then have "e \<noteq> assignment" using ac by auto
        then have "tt_id e \<noteq> tt_id assignment" using uniq [OF e] by blast
        then have "h e = e" using ne by (simp add: h_def dem_def)
        then show "classId e = c' \<and> isPrimary e \<and> isActive e" using p by simp
      qed
      have "length (primaries c' (map h (timetable_tbl s))) \<le> length (primaries c' (timetable_tbl s))"
        unfolding primaries_def using keep by (intro length_filter_map_le) 
      then show ?thesis
        using inv unfolding tbl one_primary_per_class_iff by (meson le_trans)
    qed
  qed
qed

lemma timetable_create_success:
  assumes "timetable_create sch nid s user c body = (s', Inr r)"
  shows "s' = s\<lparr>timetable_tbl := timetable_tbl s @ [r]\<rparr>
       \<and> isPrimary r = (case in_isPrimary body of None \<Rightarrow> True | Some b \<Rightarrow> b)"
  using assms
  by (auto simp: timetable_create_def createTimetableSchema_def Let_def
           dest!: prisma_create_success split: option.splits sum.splits if_splits)

lemma timetable_update_success:
  assumes "timetable_update sch s user i body = (s', Inr r)"
  shows "s' = s\<lparr>timetable_tbl :=
                 map (\<lambda>e. if tt_id e = i then apply_timetable_patch body e else e) (timetable_tbl s)\<rparr>"
proof -
  have p: "updateTimetableSchema body = Inr body"
    using assms
    by (auto simp: timetable_update_def updateTimetableSchema_def split: option.splits sum.splits if_splits)
  from assms p have "prisma_update sch s i (apply_timetable_patch body) = Inr s'"
    by (auto simp: timetable_update_def split: option.splits sum.splits if_splits)
  then show ?thesis by (rule prisma_update_success)
qed

lemma schedule_create_row:
  assumes "schedule_create sch nid s user t body = (s', Inr r)"
  shows "isPrimary r = default_isPrimary sch"
  using assms
  by (auto simp: schedule_create_def createScheduleSchema_def Let_def
           split: option.splits sum.splits if_splits)

lemma timetable_create_one_primary:
  assumes "one_primary_per_class (timetable_tbl s)"
    and "timetable_create sch nid s user c body = (s', Inr r)" and "in_isPrimary body = Some False"
  shows "one_primary_per_class (timetable_tbl s')"
  using timetable_create_success [OF assms(2)] assms(3) one_primary_append [OF assms(1), of r]
  by simp

lemma timetable_update_one_primary:
  assumes "one_primary_per_class (timetable_tbl s)"
    and "timetable_update sch s user i body = (s', Inr r)"
    and "p_classId body = None" and "p_isPrimary body \<noteq> Some True"
  shows "one_primary_per_class (timetable_tbl s')"
proof -
  have "isPrimary (apply_timetable_patch body e) \<longrightarrow> isPrimary e" for e
    using assms(4) by (cases "p_isPrimary body") (auto simp: apply_timetable_patch_def or_else_def)
  moreover have "classId (apply_timetable_patch body e) = classId e
                 \<and> isActive (apply_timetable_patch body e) = isActive e" for e
    using assms(3) by (simp add: apply_timetable_patch_def or_else_def)
  ultimately have g: "\<forall>e \<in> set (timetable_tbl s).
             classId (if tt_id e = i then apply_timetable_patch body e else e) = classId e
             \<and> (isPrimary (if tt_id e = i then apply_timetable_patch body e else e)
                  \<and> isActive (if tt_id e = i then apply_timetable_patch body e else e)
                \<longrightarrow> isPrimary e \<and> isActive e)"
    by (simp split: if_splits)
  show ?thesis
    unfolding timetable_update_success [OF assms(2)] using one_primary_map [OF assms(1) g] by simp
qed

lemma schedule_create_one_primary:
  assumes "one_primary_per_class (timetable_tbl s)"
    and "schedule_create sch nid s user t body = (s', Inr r)" and "\<not> default_isPrimary sch"
  shows "one_primary_per_class (timetable_tbl s')"
  using schedule_create_success(1) [OF assms(2)] schedule_create_row [OF assms(2)] assms(3)
        one_primary_append [OF assms(1), of r]
  by simp

lemma schedule_update_one_primary:
  assumes "one_primary_per_class (timetable_tbl s)"
    and "schedule_update sch s user i body = (s', Inr r)" and "sp_classId body = None"
  shows "one_primary_per_class (timetable_tbl s')"
proof -
  from schedule_update_success [OF assms(2)] have
    s': "s' = s\<lparr>timetable_tbl := map (\<lambda>e. if tt_id e = i then apply_schedule_patch body e else e) (timetable_tbl s)\<rparr>"
    by blast
  have "classId (apply_schedule_patch body e) = classId e
        \<and> isActive (apply_schedule_patch body e) = isActive e
        \<and> isPrimary (apply_schedule_patch body e) = isPrimary e" for e
    using assms(3) by (simp add: apply_schedule_patch_def or_else_def)
  then have g: "\<forall>e \<in> set (timetable_tbl s).
             classId (if tt_id e = i then apply_schedule_patch body e else e) = classId e
             \<and> (isPrimary (if tt_id e = i then apply_schedule_patch body e else e)
                  \<and> isActive (if tt_id e = i then apply_schedule_patch body e else e)
                \<longrightarrow> isPrimary e \<and> isActive e)"
    by (simp split: if_splits)
  show ?thesis
    unfolding s' using one_primary_map [OF assms(1) g] by simp
qed

lemma deletes_one_primary:
  assumes "one_primary_per_class (timetable_tbl s)"
  shows "timetable_delete s user i = (s', Inr ()) \<Longrightarrow> one_primary_per_class (timetable_tbl s')"
    and "schedule_delete s user i = (s', Inr ()) \<Longrightarrow> one_primary_per_class (timetable_tbl s')"
    and "remove_assignment s user c t = (s', Inr ()) \<Longrightarrow> one_primary_per_class (timetable_tbl s')"
proof -
  show "timetable_delete s user i = (s', Inr ()) \<Longrightarrow> one_primary_per_class (timetable_tbl s')"
    using deletes_success [of s user i s'] one_primary_filter [OF assms] by simp
  show "schedule_delete s user i = (s', Inr ()) \<Longrightarrow> one_primary_per_class (timetable_tbl s')"
    using deletes_success [of s user i s'] one_primary_filter [OF assms] by simp
  show "remove_assignment s user c t = (s', Inr ()) \<Longrightarrow> one_primary_per_class (timetable_tbl s')"
    using remove_assignment_success [of s user c t s'] one_primary_filter [OF assms] by auto
qed

section \<open>The schedule route past its checks\<close>

text \<open>
  Once the caller is authorised, the body parses, the teacher and the class are found in
  the caller's institute and the range is proper, POST /:id/schedules is the conflict scan
  followed by the insert. An overlapping entry of the teacher on that day makes it fail
  and name the first colliding entry; the probe POST /conflicts/check reports a conflict
  exactly when it fails so. No outcome of the route is the qualification error.
\<close>

lemma prisma_create_error:
  assumes "prisma_create sch s row = Inl e"
  shows "e = PrismaError"
  using assms by (simp add: prisma_create_def split: if_splits)

lemma conflict_error_not_prisma:
  "conflict_error s d c \<noteq> PrismaError" "PrismaError \<noteq> conflict_error s d c"
  by (simp_all add: conflict_error_def split: option.splits)

lemma schedule_create_past_checks:
  assumes "authorize [''SUPER_ADMIN'', ''ADMIN''] user = None"
    and "createScheduleSchema body = Inr body"
    and "teacher_found s user t" and "class_found s user (sc_classId body)"
    and "sc_startTime body < sc_endTime body"
  shows "schedule_create sch nid s user t body =
     (case find (\<lambda>e. teacherId e = t \<and> dayOfWeek e = sc_dayOfWeek body
                      \<and> three_clause (startTime e) (endTime e)
                           (sc_startTime body) (sc_endTime body)) (timetable_tbl s) of
        Some conflict \<Rightarrow> (s, Inl (conflict_error s (sc_dayOfWeek body) conflict))
      | None \<Rightarrow>
          (case prisma_create sch s
                  \<lparr>tt_id = nid, classId = sc_classId body, subjectId = [], teacherId = t,
                   dayOfWeek = sc_dayOfWeek body, startTime = sc_startTime body,
                   endTime = sc_endTime body, room = sc_room body,
                   isPrimary = default_isPrimary sch, isActive = default_isActive sch\<rparr> of
             Inl e \<Rightarrow> (s, Inl e)
           | Inr s' \<Rightarrow>
               (s', Inr \<lparr>tt_id = nid, classId = sc_classId body, subjectId = [], teacherId = t,
                        dayOfWeek = sc_dayOfWeek body, startTime = sc_startTime body,
                        endTime = sc_endTime body, room = sc_room body,
                        isPrimary = default_isPrimary sch, isActive = default_isActive sch\<rparr>)))"
proof -
  from assms(3) obtain tr where
    tr: "find (\<lambda>u. u_id u = t \<and> u_instituteId u = user_instituteId user \<and> u_role u = ''TEACHER'')
           (user_tbl s) = Some tr"
    unfolding teacher_found_def by blast
  from assms(4) obtain cr where
    cr: "find (\<lambda>x. c_id x = sc_classId body \<and> c_instituteId x = user_instituteId user)
           (class_tbl s) = Some cr"
    unfolding class_found_def by blast
  have nle: "\<not> sc_endTime body \<le> sc_startTime body" using assms(5) by simp
  show ?thesis
    unfolding schedule_create_def
    by (simp add: assms(1,2) tr cr nle Let_def split: option.splits)
qed

lemma schedule_create_overlap_fails:
  assumes "authorize [''SUPER_ADMIN'', ''ADMIN''] user = None"
    and "createScheduleSchema body = Inr body"
    and "teacher_found s user t" and "class_found s user (sc_classId body)"
    and "sc_startTime body < sc_endTime body"
    and e: "e \<in> set (timetable_tbl s)" "teacherId e = t" "dayOfWeek e = sc_dayOfWeek body"
      "spec_overlaps (startTime e, endTime e) (sc_startTime body, sc_endTime body)"
  shows "\<exists>c \<in> set (timetable_tbl s).
           teacherId c = t \<and> dayOfWeek c = sc_dayOfWeek body
           \<and> three_clause (startTime c) (endTime c) (sc_startTime body) (sc_endTime body)
           \<and> schedule_create sch nid s user t body
               = (s, Inl (conflict_error s (sc_dayOfWeek body) c))"
proof -
  let ?P = "\<lambda>e. teacherId e = t \<and> dayOfWeek e = sc_dayOfWeek body
                      \<and> three_clause (startTime e) (endTime e)
                           (sc_startTime body) (sc_endTime body)"
  have "?P e" using e overlap_imp_three_clause by blast
  then have "find ?P (timetable_tbl s) \<noteq> None" using e(1) by (auto simp: find_None_iff)
  then obtain c where c: "find ?P (timetable_tbl s) = Some c" by blast
  then have "c \<in> set (timetable_tbl s)" and "?P c" by (auto simp: find_Some_iff)
  moreover have "schedule_create sch nid s user t body
               = (s, Inl (conflict_error s (sc_dayOfWeek body) c))"
    unfolding schedule_create_past_checks [OF assms(1-5)] c by simp
  ultimately show ?thesis by blast
qed

lemma conflicts_check_agrees_with_schedule_create:
  assumes "authorize [''SUPER_ADMIN'', ''ADMIN''] user = None"
    and "createScheduleSchema body = Inr body"
    and "teacher_found s user t" and "class_found s user (sc_classId body)"
    and "sc_startTime body < sc_endTime body" and "t \<noteq> []"
  shows "(\<exists>found. conflicts_check s user
            \<lparr>q_teacherId = t, q_dayOfWeek = Some (sc_dayOfWeek body),
             q_startTime = sc_startTime body, q_endTime = sc_endTime body,
             q_excludeScheduleId = None\<rparr> = Inr \<lparr>hasConflict = True, conflicts = found\<rparr>)
       = (\<exists>c. schedule_create sch nid s user t body
               = (s, Inl (conflict_error s (sc_dayOfWeek body) c)))"
proof -
  let ?P = "\<lambda>e. teacherId e = t \<and> dayOfWeek e = sc_dayOfWeek body
                      \<and> three_clause (startTime e) (endTime e)
                           (sc_startTime body) (sc_endTime body)"
  have ne: "sc_startTime body \<noteq> []" "sc_endTime body \<noteq> []"
    using assms(2) by (auto simp: createScheduleSchema_def split: if_splits)
  have probe: "conflicts_check s user
            \<lparr>q_teacherId = t, q_dayOfWeek = Some (sc_dayOfWeek body),
             q_startTime = sc_startTime body, q_endTime = sc_endTime body,
             q_excludeScheduleId = None\<rparr>
          = Inr \<lparr>hasConflict = (filter ?P (timetable_tbl s) \<noteq> []), conflicts = filter ?P (timetable_tbl s)\<rparr>"
    using assms(3,6) ne
    by (simp add: conflicts_check_def teacher_found_def exclude_ok_def Let_def)
  have fe: "(filter ?P (timetable_tbl s) \<noteq> []) = (find ?P (timetable_tbl s) \<noteq> None)"
    by (auto simp: filter_empty_conv find_None_iff)
  show ?thesis
  proof (cases "find ?P (timetable_tbl s)")
    case None
    then show ?thesis
      unfolding probe schedule_create_past_checks [OF assms(1-5)] using fe
      by (auto split: sum.splits dest!: prisma_create_error simp: conflict_error_not_prisma)
  next
    case (Some c)
    then show ?thesis
      unfolding probe schedule_create_past_checks [OF assms(1-5)] using fe
      by auto
  qed
qed

lemma schedule_create_never_checks_qualification:
  "snd (schedule_create sch nid s user t body)
     \<noteq> Inl (AppError 400 ''Teacher is not qualified to teach this subject'')"
  by (auto simp: schedule_create_def authorize_def createScheduleSchema_def conflict_error_def
                 conflict_message_def
                 prisma_create_def Let_def
           split: option.splits sum.splits if_splits)

section \<open>Failures that keep the store\<close>

text \<open>
  A request that fails leaves the store as it found it, on every route but two: the
  assignment create and update write the demotions before their last write, and keep the
  store only when the failure is one of their own checks.
\<close>

lemma prisma_update_error:
  assumes "prisma_update sch s i f = Inl e"
  shows "e = PrismaError"
  using assms by (simp add: prisma_update_def split: option.splits if_splits)

lemma failed_request_keeps_store:
  "snd (timetable_create sch nid s user c tbody) = Inl e
     \<Longrightarrow> fst (timetable_create sch nid s user c tbody) = s"
  "snd (timetable_update sch s user i tpatch) = Inl e
     \<Longrightarrow> fst (timetable_update sch s user i tpatch) = s"
  "snd (timetable_delete s user i) = Inl e \<Longrightarrow> fst (timetable_delete s user i) = s"
  "snd (schedule_create sch nid s user t sbody) = Inl e
     \<Longrightarrow> fst (schedule_create sch nid s user t sbody) = s"
  "snd (schedule_update sch s user i spatch) = Inl e
     \<Longrightarrow> fst (schedule_update sch s user i spatch) = s"
  "snd (schedule_delete s user i) = Inl e \<Longrightarrow> fst (schedule_delete s user i) = s"
  "snd (remove_assignment s user c t) = Inl e \<Longrightarrow> fst (remove_assignment s user c t) = s"
  "snd (assign_teacher sch nid s user c abody) = Inl e \<Longrightarrow> e \<noteq> PrismaError
     \<Longrightarrow> fst (assign_teacher sch nid s user c abody) = s"
  "snd (update_assignment sch s user c t b) = Inl e \<Longrightarrow> e \<noteq> PrismaError
     \<Longrightarrow> fst (update_assignment sch s user c t b) = s"
proof -
  show "snd (timetable_create sch nid s user c tbody) = Inl e
     \<Longrightarrow> fst (timetable_create sch nid s user c tbody) = s"
    by (auto simp: timetable_create_def Let_def split: option.splits sum.splits if_splits)
  show "snd (timetable_update sch s user i tpatch) = Inl e
     \<Longrightarrow> fst (timetable_update sch s user i tpatch) = s"
    by (auto simp: timetable_update_def split: option.splits sum.splits if_splits)
  show "snd (timetable_delete s user i) = Inl e \<Longrightarrow> fst (timetable_delete s user i) = s"
    by (auto simp: timetable_delete_def split: option.splits sum.splits)
  show "snd (schedule_create sch nid s user t sbody) = Inl e
     \<Longrightarrow> fst (schedule_create sch nid s user t sbody) = s"
    by (auto simp: schedule_create_def Let_def split: option.splits sum.splits if_splits)
  show "snd (schedule_update sch s user i spatch) = Inl e
     \<Longrightarrow> fst (schedule_update sch s user i spatch) = s"
    by (auto simp: schedule_update_def split: option.splits sum.splits if_splits)
  show "snd (schedule_delete s user i) = Inl e \<Longrightarrow> fst (schedule_delete s user i) = s"
    by (auto simp: schedule_delete_def split: option.splits sum.splits)
  show "snd (remove_assignment s user c t) = Inl e \<Longrightarrow> fst (remove_assignment s user c t) = s"
    by (auto simp: remove_assignment_def split: option.splits sum.splits if_splits)
  show "snd (assign_teacher sch nid s user c abody) = Inl e \<Longrightarrow> e \<noteq> PrismaError
     \<Longrightarrow> fst (assign_teacher sch nid s user c abody) = s"
    by (auto simp: assign_teacher_def Let_def dest: prisma_create_error
             split: option.splits sum.splits if_splits)
  show "snd (update_assignment sch s user c t b) = Inl e \<Longrightarrow> e \<noteq> PrismaError
     \<Longrightarrow> fst (update_assignment sch s user c t b) = s"
    by (auto simp: update_assignment_def Let_def dest: prisma_update_error
             split: option.splits sum.splits if_splits)
qed

section \<open>The interval predicate (claim C5)\<close>

text \<open>
  Claim C5. For proper ranges (start before end on both sides, in the lexicographic order
  of the time strings) the three-clause disjunction of the handlers is the overlap
  \<open>a.start < b.end \<and> b.start < a.end\<close> of the specification; so it is symmetric, and two
  ranges that only touch (the end of one is the start of the other) do not conflict.
\<close>

theorem three_clause_refines_overlap:
  assumes "es < ee" and "cs < ce"
  shows "(three_clause es ee cs ce = spec_overlaps (es, ee) (cs, ce))
       \<and> (three_clause es ee cs ce = three_clause cs ce es ee)
       \<and> (spec_overlaps (es, ee) (cs, ce) = spec_overlaps (cs, ce) (es, ee))
       \<and> (ee = cs \<longrightarrow> \<not> three_clause es ee cs ce)
       \<and> (ce = es \<longrightarrow> \<not> three_clause es ee cs ce)"
  using assms unfolding three_clause_def spec_overlaps_def by auto

theorem three_clause_refines_overlap_witness:
  "''09:00'' < ''10:00'' \<and> ''09:30'' < ''10:30'' \<and> ''10:00'' < ''11:00''
   \<and> three_clause ''09:00'' ''10:00'' ''09:30'' ''10:30''
   \<and> three_clause ''09:30'' ''10:30'' ''09:00'' ''10:00''
   \<and> \<not> three_clause ''09:00'' ''10:00'' ''10:00'' ''11:00''
   \<and> \<not> three_clause ''10:00'' ''11:00'' ''09:00'' ''10:00''"
proof -
  have a: "''09:00'' < ''10:00''" and b: "''09:30'' < ''10:30''" and c: "''10:00'' < ''11:00''"
    by simp_all
  have o: "spec_overlaps (''09:00'', ''10:00'') (''09:30'', ''10:30'')"
    by (simp add: spec_overlaps_def)
  note ov = three_clause_refines_overlap [OF a b]
  note adj = three_clause_refines_overlap [OF a c]
  have 1: "three_clause ''09:00'' ''10:00'' ''09:30'' ''10:30''" using ov o by blast
  then have 2: "three_clause ''09:30'' ''10:30'' ''09:00'' ''10:00''" using ov by blast
  have 3: "\<not> three_clause ''09:00'' ''10:00'' ''10:00'' ''11:00''" using adj by blast
  then have 4: "\<not> three_clause ''10:00'' ''11:00'' ''09:00'' ''10:00''" using adj by blast
  show ?thesis using a b c 1 2 3 4 by blast
qed

section \<open>Creating entries: overlap, range and qualification (claims C1, C4, C6, C7)\<close>

text \<open>
  On the scenario of the specification the schedule route refuses the overlapping slot
  09:30 to 10:30 and names the colliding entry, and both routes take the adjacent slot
  10:00 to 11:00.
\<close>

lemma schedule_create_rejects_overlap:
  "schedule_create sch_open id_2 st_scenario admin_1 teacher_T
     \<lparr>sc_classId = class_B, sc_dayOfWeek = MONDAY, sc_startTime = ''09:30'',
      sc_endTime = ''10:30'', sc_room = None\<rparr>
   = (st_scenario, Inl (AppError 400 (conflict_message ''ClassA'' MONDAY entry_1)))"
  by code_simp

lemma schedule_create_accepts_adjacent:
  "snd (schedule_create sch_open id_2 st_scenario admin_1 teacher_T
     \<lparr>sc_classId = class_B, sc_dayOfWeek = MONDAY, sc_startTime = ''10:00'',
      sc_endTime = ''11:00'', sc_room = None\<rparr>)
   = Inr \<lparr>tt_id = id_2, classId = class_B, subjectId = [], teacherId = teacher_T,
          dayOfWeek = MONDAY, startTime = ''10:00'', endTime = ''11:00'', room = None,
          isPrimary = False, isActive = True\<rparr>"
  by code_simp

lemma timetable_create_accepts_adjacent:
  "snd (timetable_create sch_open id_2 st_scenario admin_1 class_B
     (create_body class_B MONDAY ''10:00'' ''11:00''))
   = Inr (mk_entry id_2 class_B subject_S teacher_T MONDAY ''10:00'' ''11:00'' True)"
  by code_simp

text \<open>
  Claim C1. A create whose range overlaps an entry of the same teacher on the same day
  must fail with a schedule conflict. On the scenario of the specification (T has MONDAY
  09:00 to 10:00 in class A) POST /classes/:classId with T, S, class B, MONDAY, 09:30 to
  10:30 succeeds and stores the overlapping row: its double-booking check compares the
  start times for equality only.
\<close>

theorem timetable_create_accepts_overlap:
  "timetable_create sch_open id_2 st_scenario admin_1 class_B
     (create_body class_B MONDAY ''09:30'' ''10:30'')
   = (st_scenario\<lparr>timetable_tbl :=
        [entry_1, mk_entry id_2 class_B subject_S teacher_T MONDAY ''09:30'' ''10:30'' True]\<rparr>,
      Inr (mk_entry id_2 class_B subject_S teacher_T MONDAY ''09:30'' ''10:30'' True))
   \<and> spec_overlaps (startTime entry_1, endTime entry_1) (''09:30'', ''10:30'')"
  by code_simp

text \<open>The schedule route refuses a range that does not start before it ends.\<close>

lemma schedule_create_rejects_inverted_range:
  "schedule_create sch_open id_2 st_scenario admin_1 teacher_T
     \<lparr>sc_classId = class_B, sc_dayOfWeek = TUESDAY, sc_startTime = ''10:00'',
      sc_endTime = ''09:00'', sc_room = None\<rparr>
   = (st_scenario, Inl (AppError 400 ''End time must be after start time''))"
  by code_simp

text \<open>
  Claim C4. A create with \<open>startTime \<ge> endTime\<close> must fail with a validation error and
  leave the store unchanged. POST /classes/:classId with TUESDAY 10:00 to 09:00 succeeds
  and stores the row: that route has no check of the start against the end.
\<close>

theorem timetable_create_accepts_inverted_range:
  "timetable_create sch_open id_2 st_scenario admin_1 class_B
     (create_body class_B TUESDAY ''10:00'' ''09:00'')
   = (st_scenario\<lparr>timetable_tbl :=
        [entry_1, mk_entry id_2 class_B subject_S teacher_T TUESDAY ''10:00'' ''09:00'' True]\<rparr>,
      Inr (mk_entry id_2 class_B subject_S teacher_T TUESDAY ''10:00'' ''09:00'' True))
   \<and> ''10:00'' \<ge> ''09:00''"
  by code_simp

text \<open>
  Claim C6. The probe POST /conflicts/check must report a conflict exactly when a create
  with the same teacher, day and range would fail with a schedule conflict. On the
  scenario the probe reports the conflict with entry 1 for MONDAY 09:30 to 10:30, and
  POST /classes/:classId with the same teacher, day and range succeeds.
\<close>

theorem conflicts_check_drifts_from_timetable_create:
  "conflicts_check st_scenario admin_1
     \<lparr>q_teacherId = teacher_T, q_dayOfWeek = Some MONDAY, q_startTime = ''09:30'',
      q_endTime = ''10:30'', q_excludeScheduleId = None\<rparr>
   = Inr \<lparr>hasConflict = True, conflicts = [entry_1]\<rparr>
   \<and> snd (timetable_create sch_open id_2 st_scenario admin_1 class_B
            (create_body class_B MONDAY ''09:30'' ''10:30''))
     = Inr (mk_entry id_2 class_B subject_S teacher_T MONDAY ''09:30'' ''10:30'' True)"
  by code_simp

text \<open>The timetable route refuses a teacher who is not qualified for the subject.\<close>

lemma timetable_create_checks_qualification:
  "timetable_create sch_open id_2 st_scenario admin_1 class_B
     ((create_body class_B MONDAY ''11:00'' ''12:00'')\<lparr>in_teacherId := teacher_V\<rparr>)
   = (st_scenario, Inl (AppError 400 ''Teacher is not qualified to teach this subject''))"
  by code_simp

text \<open>
  Claim C7. A create for a teacher who is not qualified for the entry's subject must fail
  with a qualification error. Teacher V has no qualification at all; POST /:id/schedules
  for V, class A, WEDNESDAY 09:00 to 10:00 succeeds and stores a time-bearing row whose
  \<open>subjectId\<close> is the empty string: that route never looks at the qualifications.
\<close>

theorem schedule_create_skips_qualification:
  "schedule_create sch_open id_2 st_scenario admin_1 teacher_V
     \<lparr>sc_classId = class_A, sc_dayOfWeek = WEDNESDAY, sc_startTime = ''09:00'',
      sc_endTime = ''10:00'', sc_room = None\<rparr>
   = (st_scenario\<lparr>timetable_tbl :=
        [entry_1,
         \<lparr>tt_id = id_2, classId = class_A, subjectId = [], teacherId = teacher_V,
          dayOfWeek = WEDNESDAY, startTime = ''09:00'', endTime = ''10:00'', room = None,
          isPrimary = False, isActive = True\<rparr>]\<rparr>,
      Inr \<lparr>tt_id = id_2, classId = class_A, subjectId = [], teacherId = teacher_V,
           dayOfWeek = WEDNESDAY, startTime = ''09:00'', endTime = ''10:00'', room = None,
           isPrimary = False, isActive = True\<rparr>)
   \<and> filter (\<lambda>q. ts_teacherId q = teacher_V) (teacherSubject_tbl st_scenario) = []"
  by code_simp

section \<open>No double booking (claim C2)\<close>

text \<open>
  Claim C2, as stated: after every successful mutation, assignment create included, the
  active entries of a teacher on a day do not overlap. Assigning teacher T, who has
  MONDAY 09:00 to 10:00 in class A, to class B writes the placeholder slot MONDAY 09:00 to
  10:00 for T in class B without any conflict check.
\<close>

theorem assign_teacher_double_books:
  "table_ok (timetable_tbl st_two_classes)
   \<and> snd (assign_teacher sch_open id_2 st_two_classes admin_1 class_B
            \<lparr>as_teacherId = teacher_T, as_isPrimary = None\<rparr>)
     = Inr (mk_entry id_2 class_B subject_S teacher_T MONDAY ''09:00'' ''10:00'' False)
   \<and> \<not> no_double_booking
          (timetable_tbl (fst (assign_teacher sch_open id_2 st_two_classes admin_1 class_B
                                 \<lparr>as_teacherId = teacher_T, as_isPrimary = None\<rparr>)))"
  by code_simp

text \<open>
  Claim C2, amended. From a table with distinct identifiers and no double booking, a
  successful schedule create or schedule update, a successful delete on any of the three
  routes and a successful assignment update leave a table with distinct identifiers and
  no double booking.
\<close>

theorem schedule_mutations_preserve_no_double_booking:
  assumes "table_ok (timetable_tbl s)"
  shows "(schedule_create sch nid s user t body = (s_cr, Inr r_cr) \<longrightarrow> table_ok (timetable_tbl s_cr))
       \<and> (schedule_update sch s user i patch = (s_up, Inr r_up) \<longrightarrow> table_ok (timetable_tbl s_up))
       \<and> (timetable_delete s user i = (s_td, Inr ()) \<longrightarrow> table_ok (timetable_tbl s_td))
       \<and> (schedule_delete s user i = (s_sd, Inr ()) \<longrightarrow> table_ok (timetable_tbl s_sd))
       \<and> (remove_assignment s user c t = (s_ra, Inr ()) \<longrightarrow> table_ok (timetable_tbl s_ra))
       \<and> (update_assignment sch s user c t b = (s_ua, Inr r_ua) \<longrightarrow> table_ok (timetable_tbl s_ua))"
proof (intro conjI impI)
  assume "schedule_create sch nid s user t body = (s_cr, Inr r_cr)"
  then show "table_ok (timetable_tbl s_cr)" using schedule_create_preserves assms by blast
next
  assume "schedule_update sch s user i patch = (s_up, Inr r_up)"
  then show "table_ok (timetable_tbl s_up)" using schedule_update_preserves assms by blast
next
  assume "timetable_delete s user i = (s_td, Inr ())"
  then show "table_ok (timetable_tbl s_td)"
    using deletes_success [of s user i s_td] table_ok_filter [OF assms] by simp
next
  assume "schedule_delete s user i = (s_sd, Inr ())"
  then show "table_ok (timetable_tbl s_sd)"
    using deletes_success [of s user i s_sd] table_ok_filter [OF assms] by simp
next
  assume "remove_assignment s user c t = (s_ra, Inr ())"
  then show "table_ok (timetable_tbl s_ra)"
    using remove_assignment_success [of s user c t s_ra] table_ok_filter [OF assms] by auto
next
  assume "update_assignment sch s user c t b = (s_ua, Inr r_ua)"
  then show "table_ok (timetable_tbl s_ua)" using update_assignment_preserves assms by blast
qed

theorem schedule_mutations_preserve_no_double_booking_witness:
  "table_ok (timetable_tbl st_scenario)
   \<and> snd (schedule_create sch_open id_2 st_scenario admin_1 teacher_T
            \<lparr>sc_classId = class_B, sc_dayOfWeek = MONDAY, sc_startTime = ''10:00'',
             sc_endTime = ''11:00'', sc_room = None\<rparr>)
     = Inr \<lparr>tt_id = id_2, classId = class_B, subjectId = [], teacherId = teacher_T,
            dayOfWeek = MONDAY, startTime = ''10:00'', endTime = ''11:00'', room = None,
            isPrimary = False, isActive = True\<rparr>
   \<and> table_ok (timetable_tbl (fst (schedule_create sch_open id_2 st_scenario admin_1 teacher_T
            \<lparr>sc_classId = class_B, sc_dayOfWeek = MONDAY, sc_startTime = ''10:00'',
             sc_endTime = ''11:00'', sc_room = None\<rparr>)))
   \<and> snd (schedule_update sch_open st_scenario admin_1 id_1
            \<lparr>sp_classId = None, sp_dayOfWeek = Some TUESDAY, sp_startTime = Some ''11:00'',
             sp_endTime = Some ''12:00'', sp_room = None\<rparr>)
     = Inr (mk_entry id_1 class_A subject_S teacher_T TUESDAY ''11:00'' ''12:00'' True)
   \<and> table_ok (timetable_tbl (fst (schedule_update sch_open st_scenario admin_1 id_1
            \<lparr>sp_classId = None, sp_dayOfWeek = Some TUESDAY, sp_startTime = Some ''11:00'',
             sp_endTime = Some ''12:00'', sp_room = None\<rparr>)))
   \<and> snd (timetable_delete st_scenario admin_1 id_1) = Inr ()
   \<and> table_ok (timetable_tbl (fst (timetable_delete st_scenario admin_1 id_1)))
   \<and> snd (schedule_delete st_scenario admin_1 id_1) = Inr ()
   \<and> table_ok (timetable_tbl (fst (schedule_delete st_scenario admin_1 id_1)))
   \<and> snd (remove_assignment st_scenario admin_1 class_A teacher_T) = Inr ()
   \<and> table_ok (timetable_tbl (fst (remove_assignment st_scenario admin_1 class_A teacher_T)))
   \<and> snd (update_assignment sch_open st_scenario admin_1 class_A teacher_T False)
     = Inr (mk_entry id_1 class_A subject_S teacher_T MONDAY ''09:00'' ''10:00'' False)
   \<and> table_ok (timetable_tbl (fst (update_assignment sch_open st_scenario admin_1 class_A
                                      teacher_T False)))"
proof -
  let ?body = "\<lparr>sc_classId = class_B, sc_dayOfWeek = MONDAY, sc_startTime = ''10:00'',
                sc_endTime = ''11:00'', sc_room = None\<rparr>"
  let ?patch = "\<lparr>sp_classId = None, sp_dayOfWeek = Some TUESDAY, sp_startTime = Some ''11:00'',
                 sp_endTime = Some ''12:00'', sp_room = None\<rparr>"
  let ?r1 = "\<lparr>tt_id = id_2, classId = class_B, subjectId = [], teacherId = teacher_T,
              dayOfWeek = MONDAY, startTime = ''10:00'', endTime = ''11:00'', room = None,
              isPrimary = False, isActive = True\<rparr>"
  let ?r2 = "mk_entry id_1 class_A subject_S teacher_T TUESDAY ''11:00'' ''12:00'' True"
  let ?r6 = "mk_entry id_1 class_A subject_S teacher_T MONDAY ''09:00'' ''10:00'' False"
  have ok: "table_ok (timetable_tbl st_scenario)" by code_simp
  have e1: "snd (schedule_create sch_open id_2 st_scenario admin_1 teacher_T ?body) = Inr ?r1"
    by code_simp
  have e2: "snd (schedule_update sch_open st_scenario admin_1 id_1 ?patch) = Inr ?r2"
    by code_simp
  have e3: "snd (timetable_delete st_scenario admin_1 id_1) = Inr ()" by code_simp
  have e4: "snd (schedule_delete st_scenario admin_1 id_1) = Inr ()" by code_simp
  have e5: "snd (remove_assignment st_scenario admin_1 class_A teacher_T) = Inr ()" by code_simp
  have e6: "snd (update_assignment sch_open st_scenario admin_1 class_A teacher_T False) = Inr ?r6"
    by code_simp
  note pres = schedule_mutations_preserve_no_double_booking
    [OF ok, where sch = sch_open and nid = id_2 and user = admin_1 and t = teacher_T
       and body = ?body and i = id_1 and patch = ?patch and c = class_A and b = False
       and r_cr = ?r1 and r_up = ?r2 and r_ua = ?r6
       and s_cr = "fst (schedule_create sch_open id_2 st_scenario admin_1 teacher_T ?body)"
       and s_up = "fst (schedule_update sch_open st_scenario admin_1 id_1 ?patch)"
       and s_td = "fst (timetable_delete st_scenario admin_1 id_1)"
       and s_sd = "fst (schedule_delete st_scenario admin_1 id_1)"
       and s_ra = "fst (remove_assignment st_scenario admin_1 class_A teacher_T)"
       and s_ua = "fst (update_assignment sch_open st_scenario admin_1 class_A teacher_T False)"]
  have c1: "table_ok (timetable_tbl (fst (schedule_create sch_open id_2 st_scenario admin_1 teacher_T ?body)))"
    using pres e1 by (metis prod.collapse)
  have c2: "table_ok (timetable_tbl (fst (schedule_update sch_open st_scenario admin_1 id_1 ?patch)))"
    using pres e2 by (metis prod.collapse)
  have c3: "table_ok (timetable_tbl (fst (timetable_delete st_scenario admin_1 id_1)))"
    using pres e3 by (metis prod.collapse)
  have c4: "table_ok (timetable_tbl (fst (schedule_delete st_scenario admin_1 id_1)))"
    using pres e4 by (metis prod.collapse)
  have c5: "table_ok (timetable_tbl (fst (remove_assignment st_scenario admin_1 class_A teacher_T)))"
    using pres e5 by (metis prod.collapse)
  have c6: "table_ok (timetable_tbl (fst (update_assignment sch_open st_scenario admin_1 class_A teacher_T False)))"
    using pres e6 by (metis prod.collapse)
  show ?thesis
    using ok e1 e2 e3 e4 e5 e6 c1 c2 c3 c4 c5 c6 by blast
qed

section \<open>One primary per class (claim C3)\<close>

text \<open>
  Claim C3, as stated: after every successful mutation at most one active entry of a
  class is primary, and after a promotion by an assignment update the promoted entry is
  the only primary one. Six requests, each on a table with one primary entry per class,
  each leaving class A with two active primary entries:
  \<^item> POST /classes/:classId stores \<open>isPrimary\<close> as given, true when the body leaves it
    out, and demotes nothing;
  \<^item> PUT /:id/teachers/:teacherId with \<open>isPrimary = true\<close> demotes the rows of the other
    teachers only, and promotes the first row of the teacher: a teacher with two rows in
    the class, the second one primary, ends with both primary;
  \<^item> PUT /timetable/:id writes the \<open>isPrimary\<close> of the body and demotes nothing, and
    likewise moves the primary entry of class B into class A;
  \<^item> POST /:id/schedules leaves \<open>isPrimary\<close> to the default of the schema, here true;
  \<^item> PUT /schedules/:id moves the primary entry of class B into class A.
\<close>

theorem second_primary_after_mutation:
  "one_primary_per_class (timetable_tbl st_scenario)
   \<and> snd (timetable_create sch_open id_2 st_scenario admin_1 class_A
            (create_body class_A TUESDAY ''09:00'' ''10:00''))
     = Inr (mk_entry id_2 class_A subject_S teacher_T TUESDAY ''09:00'' ''10:00'' True)
   \<and> primaries class_A
        (timetable_tbl (fst (timetable_create sch_open id_2 st_scenario admin_1 class_A
                               (create_body class_A TUESDAY ''09:00'' ''10:00''))))
     = [entry_1, mk_entry id_2 class_A subject_S teacher_T TUESDAY ''09:00'' ''10:00'' True]
   \<and> one_primary_per_class (timetable_tbl st_two_rows)
   \<and> distinct (map tt_id (timetable_tbl st_two_rows))
   \<and> update_assignment sch_open st_two_rows admin_1 class_A teacher_T True
     = (st_two_rows\<lparr>timetable_tbl := [entry_5\<lparr>isPrimary := True\<rparr>, entry_6]\<rparr>,
        Inr (entry_5\<lparr>isPrimary := True\<rparr>))
   \<and> primaries class_A [entry_5\<lparr>isPrimary := True\<rparr>, entry_6]
     = [entry_5\<lparr>isPrimary := True\<rparr>, entry_6]
   \<and> primaries class_A
        (timetable_tbl (fst (timetable_update sch_open st_two_rows admin_1 id_1
                               (no_patch\<lparr>p_isPrimary := Some True\<rparr>))))
     = [entry_5\<lparr>isPrimary := True\<rparr>, entry_6]
   \<and> primaries class_A
        (timetable_tbl (fst (schedule_create sch_primary_default id_2 st_scenario admin_1 teacher_U
            \<lparr>sc_classId = class_A, sc_dayOfWeek = TUESDAY, sc_startTime = ''09:00'',
             sc_endTime = ''10:00'', sc_room = None\<rparr>)))
     = [entry_1,
        \<lparr>tt_id = id_2, classId = class_A, subjectId = [], teacherId = teacher_U,
         dayOfWeek = TUESDAY, startTime = ''09:00'', endTime = ''10:00'', room = None,
         isPrimary = True, isActive = True\<rparr>]
   \<and> one_primary_per_class (timetable_tbl st_two_classes)
   \<and> primaries class_A
        (timetable_tbl (fst (schedule_update sch_open st_two_classes admin_1 id_3
            \<lparr>sp_classId = Some class_A, sp_dayOfWeek = None, sp_startTime = None,
             sp_endTime = None, sp_room = None\<rparr>)))
     = [entry_1, entry_3\<lparr>classId := class_A\<rparr>]
   \<and> primaries class_A
        (timetable_tbl (fst (timetable_update sch_open st_two_classes admin_1 id_3
                               (no_patch\<lparr>p_classId := Some class_A\<rparr>))))
     = [entry_1, entry_3\<lparr>classId := class_A\<rparr>]"
  by code_simp

text \<open>
  Claim C3, amended. Promotion: after a successful assignment create with
  \<open>isPrimary = true\<close> for class C the created row is the only row of C marked primary, and
  it is active when the schema's default for \<open>isActive\<close> is true; after a successful
  assignment update with \<open>isPrimary = true\<close> for class C and teacher T, on a table with
  distinct identifiers, the updated row is primary, every primary row of C belongs to T,
  and when T has a single row in C that row is the only primary row of C.

  Invariant: from a table in which every class has at most one active primary row, the
  table after each of these successful mutations is again such a table: an assignment
  create (with any \<open>isPrimary\<close>); an assignment update with \<open>isPrimary = false\<close>; an
  assignment update with \<open>isPrimary = true\<close> when the identifiers are distinct and the
  teacher has a single row in the class; the removal of an assignment; a delete on either
  delete route; a timetable create whose body gives \<open>isPrimary = false\<close>; a timetable
  update that changes neither the class nor \<open>isPrimary\<close> to true; a schedule create when
  the schema's default for \<open>isPrimary\<close> is false; a schedule update that does not change
  the class.
\<close>

theorem single_primary_promotion_and_invariant:
  "(assign_teacher sch nid s user c_as abody = (s_as, Inr r_as) \<and> as_isPrimary abody = Some True
      \<longrightarrow> primary_rows c_as (timetable_tbl s_as) = [r_as] \<and> isActive r_as = default_isActive sch)
   \<and> (distinct (map tt_id (timetable_tbl s))
        \<and> update_assignment sch s user c_up t_up True = (s_up, Inr r_up)
      \<longrightarrow> r_up \<in> set (primary_rows c_up (timetable_tbl s_up))
          \<and> list_all (\<lambda>e. teacherId e = t_up) (primary_rows c_up (timetable_tbl s_up))
          \<and> (length (filter (\<lambda>e. classId e = c_up \<and> teacherId e = t_up) (timetable_tbl s)) = 1
               \<longrightarrow> primary_rows c_up (timetable_tbl s_up) = [r_up]))
   \<and> (one_primary_per_class (timetable_tbl s) \<longrightarrow>
        (assign_teacher sch nid s user c_as abody = (s_as, Inr r_as)
           \<longrightarrow> one_primary_per_class (timetable_tbl s_as))
      \<and> (update_assignment sch s user c_dn t_dn False = (s_dn, Inr r_dn)
           \<longrightarrow> one_primary_per_class (timetable_tbl s_dn))
      \<and> (distinct (map tt_id (timetable_tbl s))
            \<and> length (filter (\<lambda>e. classId e = c_up \<and> teacherId e = t_up) (timetable_tbl s)) = 1
            \<and> update_assignment sch s user c_up t_up True = (s_up, Inr r_up)
           \<longrightarrow> one_primary_per_class (timetable_tbl s_up))
      \<and> (remove_assignment s user c_rm t_rm = (s_rm, Inr ())
           \<longrightarrow> one_primary_per_class (timetable_tbl s_rm))
      \<and> (timetable_delete s user i_td = (s_td, Inr ())
           \<longrightarrow> one_primary_per_class (timetable_tbl s_td))
      \<and> (schedule_delete s user i_sd = (s_sd, Inr ())
           \<longrightarrow> one_primary_per_class (timetable_tbl s_sd))
      \<and> (timetable_create sch nid s user c_tc tbody = (s_tc, Inr r_tc)
            \<and> in_isPrimary tbody = Some False
           \<longrightarrow> one_primary_per_class (timetable_tbl s_tc))
      \<and> (timetable_update sch s user i_tu tpatch = (s_tu, Inr r_tu)
            \<and> p_classId tpatch = None \<and> p_isPrimary tpatch \<noteq> Some True
           \<longrightarrow> one_primary_per_class (timetable_tbl s_tu))
      \<and> (schedule_create sch nid s user t_sc sbody = (s_sc, Inr r_sc)
            \<and> \<not> default_isPrimary sch
           \<longrightarrow> one_primary_per_class (timetable_tbl s_sc))
      \<and> (schedule_update sch s user i_su spatch = (s_su, Inr r_su)
            \<and> sp_classId spatch = None
           \<longrightarrow> one_primary_per_class (timetable_tbl s_su)))"
proof (intro conjI impI)
  assume "assign_teacher sch nid s user c_as abody = (s_as, Inr r_as) \<and> as_isPrimary abody = Some True"
  then have p: "primary_rows c_as (timetable_tbl s_as) = [r_as] \<and> isActive r_as = default_isActive sch"
    using assign_teacher_primary by blast
  from p show "primary_rows c_as (timetable_tbl s_as) = [r_as]" by blast
  from p show "isActive r_as = default_isActive sch" by blast
next
  assume a: "distinct (map tt_id (timetable_tbl s))
        \<and> update_assignment sch s user c_up t_up True = (s_up, Inr r_up)"
  then show "r_up \<in> set (primary_rows c_up (timetable_tbl s_up))"
    using update_assignment_primary(1) by blast
  from a show "list_all (\<lambda>e. teacherId e = t_up) (primary_rows c_up (timetable_tbl s_up))"
    using update_assignment_primary(2) [of s sch user c_up t_up s_up r_up]
    unfolding list_all_iff by blast
  assume "length (filter (\<lambda>e. classId e = c_up \<and> teacherId e = t_up) (timetable_tbl s)) = 1"
  with a show "primary_rows c_up (timetable_tbl s_up) = [r_up]"
    using update_assignment_primary(3) by blast
next
  assume inv: "one_primary_per_class (timetable_tbl s)"
  {
    assume "assign_teacher sch nid s user c_as abody = (s_as, Inr r_as)"
    then show "one_primary_per_class (timetable_tbl s_as)"
      using assign_teacher_one_primary [OF inv] by blast
  }
  {
    assume "update_assignment sch s user c_dn t_dn False = (s_dn, Inr r_dn)"
    then show "one_primary_per_class (timetable_tbl s_dn)"
      using update_assignment_demote_one_primary [OF inv] by blast
  }
  {
    assume "distinct (map tt_id (timetable_tbl s))
            \<and> length (filter (\<lambda>e. classId e = c_up \<and> teacherId e = t_up) (timetable_tbl s)) = 1
            \<and> update_assignment sch s user c_up t_up True = (s_up, Inr r_up)"
    then show "one_primary_per_class (timetable_tbl s_up)"
      using update_assignment_promote_one_primary [OF inv] by blast
  }
  {
    assume "remove_assignment s user c_rm t_rm = (s_rm, Inr ())"
    then show "one_primary_per_class (timetable_tbl s_rm)"
      using deletes_one_primary(3) [OF inv] by blast
  }
  {
    assume "timetable_delete s user i_td = (s_td, Inr ())"
    then show "one_primary_per_class (timetable_tbl s_td)"
      using deletes_one_primary(1) [OF inv] by blast
  }
  {
    assume "schedule_delete s user i_sd = (s_sd, Inr ())"
    then show "one_primary_per_class (timetable_tbl s_sd)"
      using deletes_one_primary(2) [OF inv] by blast
  }
  {
    assume "timetable_create sch nid s user c_tc tbody = (s_tc, Inr r_tc)
            \<and> in_isPrimary tbody = Some False"
    then show "one_primary_per_class (timetable_tbl s_tc)"
      using timetable_create_one_primary [OF inv] by blast
  }
  {
    assume "timetable_update sch s user i_tu tpatch = (s_tu, Inr r_tu)
            \<and> p_classId tpatch = None \<and> p_isPrimary tpatch \<noteq> Some True"
    then show "one_primary_per_class (timetable_tbl s_tu)"
      using timetable_update_one_primary [OF inv] by blast
  }
  {
    assume "schedule_create sch nid s user t_sc sbody = (s_sc, Inr r_sc)
            \<and> \<not> default_isPrimary sch"
    then show "one_primary_per_class (timetable_tbl s_sc)"
      using schedule_create_one_primary [OF inv] by blast
  }
  {
    assume "schedule_update sch s user i_su spatch = (s_su, Inr r_su)
            \<and> sp_classId spatch = None"
    then show "one_primary_per_class (timetable_tbl s_su)"
      using schedule_update_one_primary [OF inv] by blast
  }
qed

theorem single_primary_promotion_and_invariant_witness:
  "one_primary_per_class (timetable_tbl st_assigned)
   \<and> distinct (map tt_id (timetable_tbl st_assigned))
   \<and> as_isPrimary \<lparr>as_teacherId = teacher_U, as_isPrimary = Some True\<rparr> = Some True
   \<and> snd (assign_teacher sch_open id_4 st_assigned admin_1 class_A
            \<lparr>as_teacherId = teacher_U, as_isPrimary = Some True\<rparr>)
     = Inr (mk_entry id_4 class_A subject_S teacher_U MONDAY ''09:00'' ''10:00'' True)
   \<and> primary_rows class_A
        (timetable_tbl (fst (assign_teacher sch_open id_4 st_assigned admin_1 class_A
                               \<lparr>as_teacherId = teacher_U, as_isPrimary = Some True\<rparr>)))
     = [mk_entry id_4 class_A subject_S teacher_U MONDAY ''09:00'' ''10:00'' True]
   \<and> one_primary_per_class
        (timetable_tbl (fst (assign_teacher sch_open id_4 st_assigned admin_1 class_A
                               \<lparr>as_teacherId = teacher_U, as_isPrimary = Some True\<rparr>)))
   \<and> length (filter (\<lambda>e. classId e = class_B \<and> teacherId e = teacher_T)
               (timetable_tbl st_assigned)) = 1
   \<and> update_assignment sch_open st_assigned admin_1 class_B teacher_T True
     = (st_assigned\<lparr>timetable_tbl :=
          [entry_1, entry_3\<lparr>isPrimary := False\<rparr>, entry_7\<lparr>isPrimary := True\<rparr>]\<rparr>,
        Inr (entry_7\<lparr>isPrimary := True\<rparr>))
   \<and> primary_rows class_B
        [entry_1, entry_3\<lparr>isPrimary := False\<rparr>, entry_7\<lparr>isPrimary := True\<rparr>]
     = [entry_7\<lparr>isPrimary := True\<rparr>]
   \<and> one_primary_per_class
        [entry_1, entry_3\<lparr>isPrimary := False\<rparr>, entry_7\<lparr>isPrimary := True\<rparr>]
   \<and> update_assignment sch_open st_assigned admin_1 class_B teacher_U False
     = (st_assigned\<lparr>timetable_tbl := [entry_1, entry_3\<lparr>isPrimary := False\<rparr>, entry_7]\<rparr>,
        Inr (entry_3\<lparr>isPrimary := False\<rparr>))
   \<and> one_primary_per_class [entry_1, entry_3\<lparr>isPrimary := False\<rparr>, entry_7]
   \<and> remove_assignment st_assigned admin_1 class_B teacher_U
     = (st_assigned\<lparr>timetable_tbl := [entry_1, entry_7]\<rparr>, Inr ())
   \<and> timetable_delete st_assigned admin_1 id_3
     = (st_assigned\<lparr>timetable_tbl := [entry_1, entry_7]\<rparr>, Inr ())
   \<and> schedule_delete st_assigned admin_1 id_3
     = (st_assigned\<lparr>timetable_tbl := [entry_1, entry_7]\<rparr>, Inr ())
   \<and> one_primary_per_class [entry_1, entry_7]
   \<and> in_isPrimary ((create_body class_A TUESDAY ''11:00'' ''12:00'')\<lparr>in_isPrimary := Some False\<rparr>)
     = Some False
   \<and> snd (timetable_create sch_open id_4 st_assigned admin_1 class_A
            ((create_body class_A TUESDAY ''11:00'' ''12:00'')\<lparr>in_isPrimary := Some False\<rparr>))
     = Inr (mk_entry id_4 class_A subject_S teacher_T TUESDAY ''11:00'' ''12:00'' False)
   \<and> one_primary_per_class
        (timetable_tbl (fst (timetable_create sch_open id_4 st_assigned admin_1 class_A
            ((create_body class_A TUESDAY ''11:00'' ''12:00'')\<lparr>in_isPrimary := Some False\<rparr>))))
   \<and> p_classId (no_patch\<lparr>p_endTime := Some ''10:30''\<rparr>) = None
   \<and> p_isPrimary (no_patch\<lparr>p_endTime := Some ''10:30''\<rparr>) \<noteq> Some True
   \<and> snd (timetable_update sch_open st_assigned admin_1 id_2
            (no_patch\<lparr>p_endTime := Some ''10:30''\<rparr>))
     = Inr (entry_7\<lparr>endTime := ''10:30''\<rparr>)
   \<and> one_primary_per_class
        (timetable_tbl (fst (timetable_update sch_open st_assigned admin_1 id_2
                               (no_patch\<lparr>p_endTime := Some ''10:30''\<rparr>))))
   \<and> \<not> default_isPrimary sch_open
   \<and> snd (schedule_create sch_open id_4 st_assigned admin_1 teacher_U
            \<lparr>sc_classId = class_A, sc_dayOfWeek = THURSDAY, sc_startTime = ''09:00'',
             sc_endTime = ''10:00'', sc_room = None\<rparr>)
     = Inr \<lparr>tt_id = id_4, classId = class_A, subjectId = [], teacherId = teacher_U,
            dayOfWeek = THURSDAY, startTime = ''09:00'', endTime = ''10:00'', room = None,
            isPrimary = False, isActive = True\<rparr>
   \<and> one_primary_per_class
        (timetable_tbl (fst (schedule_create sch_open id_4 st_assigned admin_1 teacher_U
            \<lparr>sc_classId = class_A, sc_dayOfWeek = THURSDAY, sc_startTime = ''09:00'',
             sc_endTime = ''10:00'', sc_room = None\<rparr>)))
   \<and> snd (schedule_update sch_open st_assigned admin_1 id_3
            \<lparr>sp_classId = None, sp_dayOfWeek = Some FRIDAY, sp_startTime = None,
             sp_endTime = None, sp_room = None\<rparr>)
     = Inr (entry_3\<lparr>dayOfWeek := FRIDAY\<rparr>)
   \<and> one_primary_per_class
        (timetable_tbl (fst (schedule_update sch_open st_assigned admin_1 id_3
            \<lparr>sp_classId = None, sp_dayOfWeek = Some FRIDAY, sp_startTime = None,
             sp_endTime = None, sp_room = None\<rparr>)))"
proof -
  let ?abody = "\<lparr>as_teacherId = teacher_U, as_isPrimary = Some True\<rparr>"
  let ?r_as = "mk_entry id_4 class_A subject_S teacher_U MONDAY ''09:00'' ''10:00'' True"
  let ?X_as = "assign_teacher sch_open id_4 st_assigned admin_1 class_A ?abody"
  let ?s_up = "st_assigned\<lparr>timetable_tbl :=
          [entry_1, entry_3\<lparr>isPrimary := False\<rparr>, entry_7\<lparr>isPrimary := True\<rparr>]\<rparr>"
  let ?s_dn = "st_assigned\<lparr>timetable_tbl := [entry_1, entry_3\<lparr>isPrimary := False\<rparr>, entry_7]\<rparr>"
  let ?s_del = "st_assigned\<lparr>timetable_tbl := [entry_1, entry_7]\<rparr>"
  let ?tbody = "(create_body class_A TUESDAY ''11:00'' ''12:00'')\<lparr>in_isPrimary := Some False\<rparr>"
  let ?r_tc = "mk_entry id_4 class_A subject_S teacher_T TUESDAY ''11:00'' ''12:00'' False"
  let ?X_tc = "timetable_create sch_open id_4 st_assigned admin_1 class_A ?tbody"
  let ?tpatch = "no_patch\<lparr>p_endTime := Some ''10:30''\<rparr>"
  let ?X_tu = "timetable_update sch_open st_assigned admin_1 id_2 ?tpatch"
  let ?sbody = "\<lparr>sc_classId = class_A, sc_dayOfWeek = THURSDAY, sc_startTime = ''09:00'',
             sc_endTime = ''10:00'', sc_room = None\<rparr>"
  let ?r_sc = "\<lparr>tt_id = id_4, classId = class_A, subjectId = [], teacherId = teacher_U,
            dayOfWeek = THURSDAY, startTime = ''09:00'', endTime = ''10:00'', room = None,
            isPrimary = False, isActive = True\<rparr>"
  let ?X_sc = "schedule_create sch_open id_4 st_assigned admin_1 teacher_U ?sbody"
  let ?spatch = "\<lparr>sp_classId = None, sp_dayOfWeek = Some FRIDAY, sp_startTime = None,
             sp_endTime = None, sp_room = None\<rparr>"
  let ?X_su = "schedule_update sch_open st_assigned admin_1 id_3 ?spatch"
  have inv: "one_primary_per_class (timetable_tbl st_assigned)" by code_simp
  have d: "distinct (map tt_id (timetable_tbl st_assigned))" by code_simp
  have h_as: "as_isPrimary ?abody = Some True" by simp
  have e_as: "snd ?X_as = Inr ?r_as" by code_simp
  have one: "length (filter (\<lambda>e. classId e = class_B \<and> teacherId e = teacher_T)
               (timetable_tbl st_assigned)) = 1" by code_simp
  have e_up: "update_assignment sch_open st_assigned admin_1 class_B teacher_T True
                = (?s_up, Inr (entry_7\<lparr>isPrimary := True\<rparr>))" by code_simp
  have e_dn: "update_assignment sch_open st_assigned admin_1 class_B teacher_U False
                = (?s_dn, Inr (entry_3\<lparr>isPrimary := False\<rparr>))" by code_simp
  have e_rm: "remove_assignment st_assigned admin_1 class_B teacher_U = (?s_del, Inr ())"
    by code_simp
  have e_td: "timetable_delete st_assigned admin_1 id_3 = (?s_del, Inr ())" by code_simp
  have e_sd: "schedule_delete st_assigned admin_1 id_3 = (?s_del, Inr ())" by code_simp
  have h_tc: "in_isPrimary ?tbody = Some False" by simp
  have e_tc: "snd ?X_tc = Inr ?r_tc" by code_simp
  have h_tu: "p_classId ?tpatch = None" "p_isPrimary ?tpatch \<noteq> Some True"
    by (simp_all add: no_patch_def)
  have e_tu: "snd ?X_tu = Inr (entry_7\<lparr>endTime := ''10:30''\<rparr>)" by code_simp
  have h_sc: "\<not> default_isPrimary sch_open" by (simp add: sch_open_def)
  have e_sc: "snd ?X_sc = Inr ?r_sc" by code_simp
  have e_su: "snd ?X_su = Inr (entry_3\<lparr>dayOfWeek := FRIDAY\<rparr>)" by code_simp
  have x_as: "?X_as = (fst ?X_as, Inr ?r_as)" using e_as by (metis prod.collapse)
  have x_tc: "?X_tc = (fst ?X_tc, Inr ?r_tc)" using e_tc by (metis prod.collapse)
  have x_tu: "?X_tu = (fst ?X_tu, Inr (entry_7\<lparr>endTime := ''10:30''\<rparr>))"
    using e_tu by (metis prod.collapse)
  have x_sc: "?X_sc = (fst ?X_sc, Inr ?r_sc)" using e_sc by (metis prod.collapse)
  have x_su: "?X_su = (fst ?X_su, Inr (entry_3\<lparr>dayOfWeek := FRIDAY\<rparr>))"
    using e_su by (metis prod.collapse)
  note t = single_primary_promotion_and_invariant
    [where sch = sch_open and nid = id_4 and s = st_assigned and user = admin_1
       and c_as = class_A and abody = ?abody and s_as = "fst ?X_as" and r_as = ?r_as
       and c_up = class_B and t_up = teacher_T and s_up = ?s_up
       and r_up = "entry_7\<lparr>isPrimary := True\<rparr>"
       and c_dn = class_B and t_dn = teacher_U and s_dn = ?s_dn
       and r_dn = "entry_3\<lparr>isPrimary := False\<rparr>"
       and c_rm = class_B and t_rm = teacher_U and s_rm = ?s_del
       and i_td = id_3 and s_td = ?s_del and i_sd = id_3 and s_sd = ?s_del
       and c_tc = class_A and tbody = ?tbody and s_tc = "fst ?X_tc" and r_tc = ?r_tc
       and i_tu = id_2 and tpatch = ?tpatch and s_tu = "fst ?X_tu"
       and r_tu = "entry_7\<lparr>endTime := ''10:30''\<rparr>"
       and t_sc = teacher_U and sbody = ?sbody and s_sc = "fst ?X_sc" and r_sc = ?r_sc
       and i_su = id_3 and spatch = ?spatch and s_su = "fst ?X_su"
       and r_su = "entry_3\<lparr>dayOfWeek := FRIDAY\<rparr>"]
  have p_as: "primary_rows class_A (timetable_tbl (fst ?X_as)) = [?r_as]"
    using t x_as h_as by blast
  have p_up: "primary_rows class_B (timetable_tbl ?s_up) = [entry_7\<lparr>isPrimary := True\<rparr>]"
    using t d e_up one by blast
  have i_as: "one_primary_per_class (timetable_tbl (fst ?X_as))" using t inv x_as by blast
  have i_up: "one_primary_per_class (timetable_tbl ?s_up)" using t inv d one e_up by blast
  have i_dn: "one_primary_per_class (timetable_tbl ?s_dn)" using t inv e_dn by blast
  have i_del: "one_primary_per_class (timetable_tbl ?s_del)" using t inv e_td by blast
  have i_tc: "one_primary_per_class (timetable_tbl (fst ?X_tc))" using t inv x_tc h_tc by blast
  have i_tu: "one_primary_per_class (timetable_tbl (fst ?X_tu))" using t inv x_tu h_tu by blast
  have i_sc: "one_primary_per_class (timetable_tbl (fst ?X_sc))" using t inv x_sc h_sc by blast
  have i_su: "one_primary_per_class (timetable_tbl (fst ?X_su))" using t inv x_su by simp
  have sel: "timetable_tbl ?s_up = [entry_1, entry_3\<lparr>isPrimary := False\<rparr>, entry_7\<lparr>isPrimary := True\<rparr>]"
    "timetable_tbl ?s_dn = [entry_1, entry_3\<lparr>isPrimary := False\<rparr>, entry_7]"
    "timetable_tbl ?s_del = [entry_1, entry_7]"
    by simp_all
  show ?thesis
    using inv d h_as e_as p_as i_as one e_up p_up i_up e_dn i_dn e_rm e_td e_sd i_del
          h_tc e_tc i_tc h_tu e_tu i_tu h_sc e_sc i_sc e_su i_su
    unfolding sel by (intro conjI)
qed

section \<open>Delete (claim C8)\<close>

text \<open>
  Claim C8, as stated: a delete keeps the entry and sets \<open>isActive = false\<close>. Both delete
  routes call \<open>prisma.timetable.delete\<close>: after deleting entry 1 of the scenario the table
  is empty, and no row with that identifier is left, active or not.
\<close>

theorem delete_removes_the_row:
  "timetable_delete st_scenario admin_1 id_1 = (st_scenario\<lparr>timetable_tbl := []\<rparr>, Inr ())
   \<and> schedule_delete st_scenario admin_1 id_1 = (st_scenario\<lparr>timetable_tbl := []\<rparr>, Inr ())
   \<and> find (\<lambda>e. tt_id e = id_1) (timetable_tbl (fst (timetable_delete st_scenario admin_1 id_1)))
     = None"
  by code_simp

text \<open>
  Claim C8, amended. A successful delete removes the rows with the given identifier from
  the table and changes nothing else: every other row, and every other table, is as
  before, and no row with that identifier is left for a conflict scan or a listing to
  find.
\<close>

theorem delete_is_hard_delete:
  assumes "timetable_delete s user i = (s', Inr ()) \<or> schedule_delete s user i = (s', Inr ())"
  shows "s' = s\<lparr>timetable_tbl := filter (\<lambda>e. tt_id e \<noteq> i) (timetable_tbl s)\<rparr>
       \<and> find (\<lambda>e. tt_id e = i) (timetable_tbl s') = None"
proof -
  have s': "s' = s\<lparr>timetable_tbl := filter (\<lambda>e. tt_id e \<noteq> i) (timetable_tbl s)\<rparr>"
    using deletes_success [OF assms] .
  moreover have "find (\<lambda>e. tt_id e = i) (timetable_tbl s') = None"
    unfolding s' by (simp add: find_None_iff)
  ultimately show ?thesis by blast
qed

theorem delete_is_hard_delete_witness:
  "timetable_delete st_two_classes admin_1 id_1
     = (st_two_classes\<lparr>timetable_tbl := [entry_3]\<rparr>, Inr ())
   \<and> find (\<lambda>e. tt_id e = id_1) (timetable_tbl (st_two_classes\<lparr>timetable_tbl := [entry_3]\<rparr>))
     = None"
proof -
  have e: "timetable_delete st_two_classes admin_1 id_1
             = (st_two_classes\<lparr>timetable_tbl := [entry_3]\<rparr>, Inr ())"
    by code_simp
  have "find (\<lambda>e. tt_id e = id_1) (timetable_tbl (st_two_classes\<lparr>timetable_tbl := [entry_3]\<rparr>))
          = None"
    using delete_is_hard_delete [OF disjI1 [OF e]] by blast
  then show ?thesis using e by blast
qed

section \<open>Failures and partial writes (claim C9)\<close>

text \<open>
  Claim C9. A failing request must leave the store as it was; in particular a create that
  fails after the demotion step must not leave the demotions applied. In the state where
  teacher U is the primary of class B, assigning teacher T to class B as primary when the
  database refuses the insert fails, and the store it leaves has U's entry demoted: the
  \<open>updateMany\<close> and the \<open>create\<close> are not in a transaction.
\<close>

theorem failed_assignment_keeps_demotion:
  "assign_teacher sch_refusing id_2 st_two_classes admin_1 class_B
     \<lparr>as_teacherId = teacher_T, as_isPrimary = Some True\<rparr>
   = (st_two_classes\<lparr>timetable_tbl := [entry_1, entry_3\<lparr>isPrimary := False\<rparr>]\<rparr>, Inl PrismaError)
   \<and> timetable_tbl st_two_classes = [entry_1, entry_3]
   \<and> isPrimary entry_3"
  by code_simp

section \<open>Tenant isolation of the reads (claim C10)\<close>

text \<open>
  Claim C10. The reads must return only entries of the caller's institute. In the state
  with two institutes a caller of institute 1 gets entry 4, whose class and teacher belong
  to institute 2, from GET / and from GET /:id; the list differs from the one the same
  caller gets when institute 2 has no entry.
\<close>

theorem timetable_reads_cross_tenant:
  "user_instituteId admin_1 = inst_1
   \<and> inst_1 \<noteq> inst_2
   \<and> map c_instituteId (filter (\<lambda>c. c_id c = classId entry_4) (class_tbl st_two_institutes))
     = [inst_2]
   \<and> map u_instituteId (filter (\<lambda>u. u_id u = teacherId entry_4) (user_tbl st_two_institutes))
     = [inst_2]
   \<and> timetable_list st_two_institutes admin_1 None None None = Inr [entry_1, entry_4]
   \<and> timetable_get st_two_institutes admin_1 id_4 = Inr entry_4
   \<and> timetable_list (st_two_institutes\<lparr>timetable_tbl := [entry_1]\<rparr>) admin_1 None None None
     = Inr [entry_1]"
  by code_simp

text \<open>The schedule routes look the teacher up in the caller's institute first.\<close>

lemma schedule_list_is_tenant_scoped:
  "schedule_list st_two_institutes admin_1 teacher_W None = Inl (AppError 404 ''Teacher not found'')"
  by code_simp

end
